theory Spec2Isabelle
  imports Main "HOL-Library.Word"
begin

unbundle bit_operations_syntax

section \<open>Data model (src/types.ts)\<close>

text \<open>
  JavaScript numbers that carry quantities and serial numbers are modelled as \<open>int\<close>.
  A JavaScript number is a double: it is exact on the safe integers (magnitude below
  \<open>2^53\<close>), and beyond them \<open>parseInt\<close> rounds, \<open>candidate++\<close> stalls and \<open>toString\<close>
  changes its format.  The model agrees with the code on the safe integers only, and the
  theorems about the serial allocator state that bound as a hypothesis (\<open>isSafeInteger\<close>,
  \<open>safeSerialDomain\<close> below).  Strings are \<open>string\<close>; a \<open>char\<close> stands for one code unit of
  the JavaScript string, restricted to the range 0..255.  An optional field
  (\<open>field?: T\<close>) is a \<open>T option\<close>, with \<open>None\<close> for \<open>undefined\<close>.  Record fields carry a
  prefix for the interface they belong to, since several interfaces share field names.
\<close>

datatype UnitStatus =
    IN_FACTORY
  | IN_TRANSIT_TO_SELLER
  | AT_SELLER
  | SOLD_TO_BUYER
  | RETURN_REQUESTED
  | RETURNED_TO_SELLER
  | RETURNED_DEFECTIVE

record ProductUnit =
  u_id :: string
  u_productId :: string
  u_serialNumber :: string
  u_status :: UnitStatus
  u_uniqueAuthHash :: "string option"
  u_manufacturerId :: string
  u_sellerId :: "string option"
  u_buyerId :: "string option"
  u_manufacturingDate :: string
  u_dateSentToSeller :: "string option"
  u_dateSold :: "string option"
  u_dateReturned :: "string option"

record BulkStock =
  b_id :: string
  b_productId :: string
  b_ownerId :: string
  b_quantity :: int

record Product =
  p_id :: string
  p_name :: string
  p_manufacturerId :: string
  p_isSerialized :: bool

record CartItem =
  c_id :: string
  c_productId :: string
  c_productName :: string
  c_quantity :: int
  c_isSerialized :: bool
  c_unitIds :: "string list option"
  c_sellerId :: "string option"

datatype OrderStatus =
    Awaiting_Confirmation
  | Confirmed
  | Delivered
  | Return_Requested
  | Returned

record Order =
  o_id :: string
  o_productId :: string
  o_productName :: string
  o_sellerId :: string
  o_buyerId :: string
  o_buyerName :: string
  o_quantity :: int
  o_status :: OrderStatus
  o_assignedUnitIds :: "string list option"
  o_dateOrdered :: string
  o_dateConfirmed :: "string option"
  o_dateDelivered :: "string option"

record User =
  usr_id :: string
  usr_name :: string

text \<open>Of \<open>GlobalSettings\<close> only the serial domain is modelled; the announcement and
  page-content strings play no part in the engine.\<close>

record GlobalSettings =
  serialRangeStart :: int
  serialRangeEnd :: int
  recycledSerials :: "int list"

text \<open>
  The persistent store is \<open>localStorage\<close>: one JSON document per key.  Every read parses
  a fresh copy and every write replaces the whole document, so the store is a record of
  the collections.  \<open>settings\<close> is \<open>None\<close> while the settings key has never been written;
  \<open>carts\<close> maps a user id to the document under that user's cart key.
\<close>

record Store =
  products :: "Product list"
  units :: "ProductUnit list"
  bulkStock :: "BulkStock list"
  orders :: "Order list"
  carts :: "string \<Rightarrow> CartItem list option"
  settings :: "GlobalSettings option"

datatype error =
    RangeExhausted
  | NoSeller string
  | InsufficientStock string int int
  | InsufficientBulkStock string

section \<open>Numbers and strings of the JavaScript runtime\<close>

definition isWhiteSpace :: "char \<Rightarrow> bool" where
  "isWhiteSpace c = ((of_char c :: nat) \<in> {9, 10, 11, 12, 13, 32, 160})"

definition digitValue :: "char \<Rightarrow> nat option" where
  "digitValue c =
     (let n = (of_char c :: nat) in
      if 48 \<le> n \<and> n \<le> 57 then Some (n - 48)
      else if 97 \<le> n \<and> n \<le> 102 then Some (n - 87)
      else if 65 \<le> n \<and> n \<le> 70 then Some (n - 55)
      else None)"

definition isDigitOf :: "nat \<Rightarrow> char \<Rightarrow> bool" where
  "isDigitOf radix c = (case digitValue c of None \<Rightarrow> False | Some d \<Rightarrow> d < radix)"

fun digitsToNat :: "nat \<Rightarrow> nat \<Rightarrow> string \<Rightarrow> nat" where
  "digitsToNat radix acc [] = acc"
| "digitsToNat radix acc (c # cs) =
     digitsToNat radix (acc * radix + (case digitValue c of None \<Rightarrow> 0 | Some d \<Rightarrow> d)) cs"

text \<open>\<open>Number.isSafeInteger\<close>: the integers on which double arithmetic is exact.\<close>

definition isSafeInteger :: "int \<Rightarrow> bool" where
  "isSafeInteger n = (\<bar>n\<bar> \<le> 9007199254740991)"

text \<open>\<open>parseInt(s)\<close> with no radix argument: leading white space is skipped, one sign is
  read, a \<open>0x\<close>/\<open>0X\<close> prefix selects radix 16, and the longest prefix of digits is the
  value; \<open>None\<close> is \<open>NaN\<close>.  The value is the exact integer the digits denote, which is
  what the runtime returns when that integer is safe; beyond that the runtime rounds to a
  double.\<close>

definition parseDigits :: "nat \<Rightarrow> string \<Rightarrow> nat option" where
  "parseDigits radix s =
     (let z = takeWhile (isDigitOf radix) s in
      if z = [] then None else Some (digitsToNat radix 0 z))"

definition parseUnsigned :: "string \<Rightarrow> nat option" where
  "parseUnsigned s =
     (case s of
        c # d # rest \<Rightarrow>
          if c = CHR ''0'' \<and> (d = CHR ''x'' \<or> d = CHR ''X'') then parseDigits 16 rest
          else parseDigits 10 s
      | _ \<Rightarrow> parseDigits 10 s)"

definition parseInt :: "string \<Rightarrow> int option" where
  "parseInt str =
     (let s = dropWhile isWhiteSpace str in
      case s of
        [] \<Rightarrow> None
      | c # rest \<Rightarrow>
          if c = CHR ''-'' then map_option (\<lambda>n. - int n) (parseUnsigned rest)
          else if c = CHR ''+'' then map_option int (parseUnsigned rest)
          else map_option int (parseUnsigned s))"

definition digitChar :: "nat \<Rightarrow> char" where
  "digitChar d = (if d < 36 then ''0123456789abcdefghijklmnopqrstuvwxyz'' ! d else CHR ''?'')"

fun natToString :: "nat \<Rightarrow> nat \<Rightarrow> string" where
  "natToString radix n =
     (if radix < 2 \<or> n < radix then [digitChar n]
      else natToString radix (n div radix) @ [digitChar (n mod radix)])"

declare natToString.simps [simp del]

text \<open>\<open>Number.prototype.toString()\<close> on a safe integer: its decimal digits.\<close>

definition toString :: "int \<Rightarrow> string" where
  "toString n = (if n < 0 then CHR ''-'' # natToString 10 (nat (- n)) else natToString 10 (nat n))"

section \<open>Serial allocator (src/services/storage.ts, getGlobalSettings .. generateNextSerialBatch)\<close>

definition getGlobalSettings :: "Store \<Rightarrow> GlobalSettings" where
  "getGlobalSettings st =
     (case settings st of
        Some parsed \<Rightarrow> parsed
      | None \<Rightarrow> \<lparr>serialRangeStart = 100000, serialRangeEnd = 100999, recycledSerials = []\<rparr>)"

definition saveGlobalSettings :: "GlobalSettings \<Rightarrow> Store \<Rightarrow> Store" where
  "saveGlobalSettings s st = st\<lparr>settings := Some s\<rparr>"

text \<open>The set \<open>usedNumbers\<close>: the numeric serials of all units, kept as a list.\<close>

definition usedNumbers :: "ProductUnit list \<Rightarrow> int list" where
  "usedNumbers allUnits = List.map_filter (\<lambda>u. parseInt (u_serialNumber u)) allUnits"

text \<open>First loop: take recycled numbers from the front of the (sorted) pool.  The result
  is the list generated so far and what is left of the pool.\<close>

fun drainRecycled :: "int \<Rightarrow> int list \<Rightarrow> int list \<Rightarrow> string list \<Rightarrow> string list \<times> int list" where
  "drainRecycled quantity used [] generated = (generated, [])"
| "drainRecycled quantity used (candidate # rest) generated =
     (if int (length generated) < quantity then
        (if candidate \<notin> set used
         then drainRecycled quantity used rest (generated @ [toString candidate])
         else drainRecycled quantity used rest generated)
      else (generated, candidate # rest))"

text \<open>Second loop: scan forward from the candidate; the \<open>throw\<close> is the \<open>Inl\<close> branch.
  \<open>candidate++\<close> is \<open>candidate + 1\<close> as long as the candidate is a safe integer, which it is
  throughout the scan when both range bounds are.\<close>

function scanRange :: "int \<Rightarrow> int list \<Rightarrow> int \<Rightarrow> int \<Rightarrow> string list \<Rightarrow> error + string list" where
  "scanRange quantity used rangeEnd candidate generated =
     (if int (length generated) < quantity then
        (if candidate > rangeEnd then Inl RangeExhausted
         else scanRange quantity used rangeEnd (candidate + 1)
                (if candidate \<notin> set used then generated @ [toString candidate] else generated))
      else Inr generated)"
  by pat_completeness auto
termination
  by (relation "measure (\<lambda>(quantity, used, rangeEnd, candidate, generated). nat (rangeEnd + 1 - candidate))") auto

declare scanRange.simps [simp del]

text \<open>The settings object is a private copy until \<open>saveGlobalSettings\<close> is called on the
  last line, so a \<open>throw\<close> in the second loop leaves the store as it was.\<close>

definition generateNextSerialBatch :: "int \<Rightarrow> Store \<Rightarrow> (error + string list) \<times> Store" where
  "generateNextSerialBatch quantity st =
     (let settings = getGlobalSettings st;
          used = usedNumbers (units st);
          (generated, pool) = drainRecycled quantity used (sort (recycledSerials settings)) [];
          settings' = settings\<lparr>recycledSerials := pool\<rparr>
      in case (if int (length generated) < quantity
               then scanRange quantity used (serialRangeEnd settings') (serialRangeStart settings') generated
               else Inr generated) of
           Inl e \<Rightarrow> (Inl e, st)
         | Inr result \<Rightarrow> (Inr result, saveGlobalSettings settings' st))"

definition unusedIn :: "int list \<Rightarrow> int list \<Rightarrow> int list" where
  "unusedIn used xs = filter (\<lambda>c. c \<notin> set used) xs"

text \<open>How many serials a call can still produce: the reclaimed numbers that are not in
  use, plus the numbers of the managed range that are not in use.\<close>

definition availableSerials :: "Store \<Rightarrow> int" where
  "availableSerials st =
     (let settings = getGlobalSettings st; used = usedNumbers (units st)
      in int (length (unusedIn used (recycledSerials settings)))
         + int (length (unusedIn used [serialRangeStart settings..serialRangeEnd settings])))"

text \<open>The stores on which the allocator's arithmetic is exact: the range bounds, the
  reclaimed numbers and the numeric serials of all units are safe integers.\<close>

definition safeSerialDomain :: "Store \<Rightarrow> bool" where
  "safeSerialDomain st =
     (isSafeInteger (serialRangeStart (getGlobalSettings st))
      \<and> isSafeInteger (serialRangeEnd (getGlobalSettings st))
      \<and> list_all isSafeInteger (recycledSerials (getGlobalSettings st))
      \<and> list_all isSafeInteger (usedNumbers (units st)))"


section \<open>Array idioms\<close>

text \<open>\<open>xs.find(P)\<close> followed by an assignment to a field of the object found changes the
  first element that satisfies \<open>P\<close> in place.\<close>

fun updateFirst :: "('a \<Rightarrow> bool) \<Rightarrow> ('a \<Rightarrow> 'a) \<Rightarrow> 'a list \<Rightarrow> 'a list" where
  "updateFirst P f [] = []"
| "updateFirst P f (x # xs) = (if P x then f x # xs else x # updateFirst P f xs)"

text \<open>\<open>xs.splice(xs.findIndex(P), 1)\<close> when an element satisfies \<open>P\<close>.\<close>

fun removeFirst :: "('a \<Rightarrow> bool) \<Rightarrow> 'a list \<Rightarrow> 'a list" where
  "removeFirst P [] = []"
| "removeFirst P (x # xs) = (if P x then xs else x # removeFirst P xs)"

text \<open>\<open>xs.slice(0, n)\<close> for an integer \<open>n\<close>: a negative end counts from the end of the array.\<close>

definition slice0 :: "'a list \<Rightarrow> int \<Rightarrow> 'a list" where
  "slice0 xs n = (if 0 \<le> n then take (nat n) xs else take (nat (int (length xs) + n)) xs)"

text \<open>\<open>ids.forEach(uid => { const u = units.find(unit => unit.id === uid); if (u) mutate(u) })\<close>\<close>

definition forEachUnit :: "string list \<Rightarrow> (ProductUnit \<Rightarrow> ProductUnit) \<Rightarrow> ProductUnit list \<Rightarrow> ProductUnit list" where
  "forEachUnit ids f allUnits = foldl (\<lambda>us uid. updateFirst (\<lambda>unit. u_id unit = uid) f us) allUnits ids"

section \<open>Unit and bulk ledgers (saveProductBatch, transferBulkStock, deleteProductUnit, returnBulkToManufacturer)\<close>

text \<open>
  \<open>generateSecureHash\<close> (SHA-256 through the Web Crypto API) and \<open>generateId\<close> (a random
  UUID) are inputs of the model: \<open>generateId k\<close> is the \<open>k\<close>-th identifier drawn during
  the call, and \<open>today\<close> below is the date string \<open>new Date()\<close> yields.  The partial units
  of \<open>saveProductBatch\<close> are given as full records; an absent or empty \<open>serialNumber\<close> or
  \<open>manufacturerId\<close> is the empty string (both are falsy).
\<close>

definition saveProductBatch ::
  "(string \<Rightarrow> string \<Rightarrow> string) \<Rightarrow> (nat \<Rightarrow> string) \<Rightarrow> Product \<Rightarrow> int \<Rightarrow> ProductUnit list \<Rightarrow> Store \<Rightarrow> Store" where
  "saveProductBatch generateSecureHash generateId product quantity partialUnits st =
     (let st1 = st\<lparr>products :=
                  (if \<exists>p \<in> set (products st). p_id p = p_id product
                   then updateFirst (\<lambda>p. p_id p = p_id product) (\<lambda>_. product) (products st)
                   else products st @ [product])\<rparr>
      in if p_isSerialized product then
           (let finalUnits =
                  map (\<lambda>u. u\<lparr>u_uniqueAuthHash := Some (generateSecureHash (u_serialNumber u) (u_manufacturerId u))\<rparr>)
                      (filter (\<lambda>u. u_serialNumber u \<noteq> [] \<and> u_manufacturerId u \<noteq> []) partialUnits)
            in st1\<lparr>units := units st1 @ finalUnits\<rparr>)
         else
           (let allStock = bulkStock st1;
                isExisting = (\<lambda>s. b_productId s = p_id product \<and> b_ownerId s = p_manufacturerId product)
            in case find isExisting allStock of
                 Some existingStock \<Rightarrow>
                   st1\<lparr>bulkStock := updateFirst isExisting (\<lambda>s. s\<lparr>b_quantity := b_quantity s + quantity\<rparr>) allStock\<rparr>
               | None \<Rightarrow>
                   st1\<lparr>bulkStock := allStock @
                         [\<lparr>b_id = generateId 0, b_productId = p_id product,
                           b_ownerId = p_manufacturerId product, b_quantity = quantity\<rparr>]\<rparr>))"

definition transferBulkStock ::
  "(nat \<Rightarrow> string) \<Rightarrow> string \<Rightarrow> string \<Rightarrow> string option \<Rightarrow> int \<Rightarrow> Store \<Rightarrow> Store" where
  "transferBulkStock generateId productId fromOwnerId toOwnerId quantity st =
     (let allStock = bulkStock st;
          isSource = (\<lambda>s. b_productId s = productId \<and> b_ownerId s = fromOwnerId)
      in case find isSource allStock of
           None \<Rightarrow> st\<lparr>bulkStock := allStock\<rparr>
         | Some sourceStock \<Rightarrow>
             if b_quantity sourceStock \<ge> quantity then
               (let allStock1 = updateFirst isSource (\<lambda>s. s\<lparr>b_quantity := b_quantity s - quantity\<rparr>) allStock
                in case toOwnerId of
                     None \<Rightarrow> st\<lparr>bulkStock := allStock1\<rparr>
                   | Some dest \<Rightarrow>
                       if dest = [] then st\<lparr>bulkStock := allStock1\<rparr>
                       else
                         (let isDest = (\<lambda>s. b_productId s = productId \<and> b_ownerId s = dest)
                          in case find isDest allStock1 of
                               Some destStock \<Rightarrow>
                                 st\<lparr>bulkStock := updateFirst isDest (\<lambda>s. s\<lparr>b_quantity := b_quantity s + quantity\<rparr>) allStock1\<rparr>
                             | None \<Rightarrow>
                                 st\<lparr>bulkStock := allStock1 @
                                       [\<lparr>b_id = generateId 0, b_productId = productId,
                                         b_ownerId = dest, b_quantity = quantity\<rparr>]\<rparr>))
             else st\<lparr>bulkStock := allStock\<rparr>)"

definition deleteProductUnit :: "string \<Rightarrow> Store \<Rightarrow> Store" where
  "deleteProductUnit unitId st =
     (let allUnits = units st;
          unitToDelete = find (\<lambda>u. u_id u = unitId) allUnits;
          remainingUnits = filter (\<lambda>u. u_id u \<noteq> unitId) allUnits;
          st1 = st\<lparr>units := remainingUnits\<rparr>
      in case unitToDelete of
           None \<Rightarrow> st1
         | Some u \<Rightarrow>
             (case parseInt (u_serialNumber u) of
                None \<Rightarrow> st1
              | Some num \<Rightarrow>
                  (let settings = getGlobalSettings st1
                   in if num \<notin> set (recycledSerials settings)
                      then saveGlobalSettings (settings\<lparr>recycledSerials := recycledSerials settings @ [num]\<rparr>) st1
                      else st1)))"

definition returnBulkToManufacturer :: "string \<Rightarrow> string \<Rightarrow> int \<Rightarrow> Store \<Rightarrow> Store" where
  "returnBulkToManufacturer productId sellerId quantity st =
     (let allStock = bulkStock st;
          isSeller = (\<lambda>s. b_productId s = productId \<and> b_ownerId s = sellerId)
      in case find isSeller allStock of
           None \<Rightarrow> st\<lparr>bulkStock := allStock\<rparr>
         | Some sellerStock \<Rightarrow>
             if b_quantity sellerStock \<ge> quantity then
               (let allStock1 = updateFirst isSeller (\<lambda>s. s\<lparr>b_quantity := b_quantity s - quantity\<rparr>) allStock
                in case find (\<lambda>p. p_id p = productId) (products st) of
                     None \<Rightarrow> st\<lparr>bulkStock := allStock1\<rparr>
                   | Some product \<Rightarrow>
                       st\<lparr>bulkStock :=
                            updateFirst (\<lambda>s. b_productId s = productId \<and> b_ownerId s = p_manufacturerId product)
                              (\<lambda>s. s\<lparr>b_quantity := b_quantity s + quantity\<rparr>) allStock1\<rparr>)
             else st\<lparr>bulkStock := allStock\<rparr>)"

section \<open>Returns (requestOrderReturn, processBuyerReturn)\<close>

definition requestOrderReturn :: "string \<Rightarrow> Store \<Rightarrow> Store" where
  "requestOrderReturn orderId st =
     (case find (\<lambda>ord. o_id ord = orderId) (orders st) of
        None \<Rightarrow> st
      | Some order \<Rightarrow>
          (let orders' = updateFirst (\<lambda>ord. o_id ord = orderId) (\<lambda>ord. ord\<lparr>o_status := Return_Requested\<rparr>) (orders st)
           in case o_assignedUnitIds order of
                Some ids \<Rightarrow>
                  st\<lparr>units := forEachUnit ids (\<lambda>u. u\<lparr>u_status := RETURN_REQUESTED\<rparr>) (units st),
                     orders := orders'\<rparr>
              | None \<Rightarrow> st\<lparr>orders := orders'\<rparr>))"

definition processBuyerReturn :: "string \<Rightarrow> bool \<Rightarrow> Store \<Rightarrow> Store" where
  "processBuyerReturn orderId accept st =
     (case find (\<lambda>ord. o_id ord = orderId) (orders st) of
        None \<Rightarrow> st
      | Some order \<Rightarrow>
          if accept then
            (let orders' = updateFirst (\<lambda>ord. o_id ord = orderId) (\<lambda>ord. ord\<lparr>o_status := Returned\<rparr>) (orders st)
             in case o_assignedUnitIds order of
                  Some ids \<Rightarrow>
                    st\<lparr>units := forEachUnit ids (\<lambda>u. u\<lparr>u_status := RETURNED_TO_SELLER\<rparr>) (units st),
                       orders := orders'\<rparr>
                | None \<Rightarrow>
                    (let isSeller = (\<lambda>s. b_productId s = o_productId order \<and> b_ownerId s = o_sellerId order)
                     in case find isSeller (bulkStock st) of
                          Some sellerStock \<Rightarrow>
                            st\<lparr>bulkStock := updateFirst isSeller
                                   (\<lambda>s. s\<lparr>b_quantity := b_quantity s + o_quantity order\<rparr>) (bulkStock st),
                               orders := orders'\<rparr>
                        | None \<Rightarrow> st\<lparr>orders := orders'\<rparr>))
          else
            (let orders' = updateFirst (\<lambda>ord. o_id ord = orderId) (\<lambda>ord. ord\<lparr>o_status := Delivered\<rparr>) (orders st)
             in case o_assignedUnitIds order of
                  Some ids \<Rightarrow>
                    st\<lparr>units := forEachUnit ids (\<lambda>u. u\<lparr>u_status := SOLD_TO_BUYER\<rparr>) (units st),
                       orders := orders'\<rparr>
                | None \<Rightarrow> st\<lparr>orders := orders'\<rparr>))"

section \<open>Checkout (processCheckout)\<close>

text \<open>The seller of a line item: its own \<open>sellerId\<close> when that is a non-empty string,
  otherwise the manufacturer of the product.  \<open>None\<close> is a falsy result.  The validation
  loop and the execution loop compute the same value.\<close>

definition resolveSeller :: "Product list \<Rightarrow> CartItem \<Rightarrow> string option" where
  "resolveSeller allProducts item =
     (let fallback =
            (case find (\<lambda>p. p_id p = c_productId item) allProducts of
               None \<Rightarrow> None
             | Some productInList \<Rightarrow>
                 if p_manufacturerId productInList = [] then None
                 else Some (p_manufacturerId productInList))
      in case c_sellerId item of
           None \<Rightarrow> fallback
         | Some sellerId \<Rightarrow> if sellerId = [] then fallback else Some sellerId)"

definition isAvailableUnit :: "CartItem \<Rightarrow> string \<Rightarrow> ProductUnit \<Rightarrow> bool" where
  "isAvailableUnit item sellerId u =
     (u_productId u = c_productId item \<and> u_sellerId u = Some sellerId
      \<and> (u_status u = AT_SELLER \<or> u_status u = RETURNED_TO_SELLER))"

definition isStockOf :: "CartItem \<Rightarrow> string \<Rightarrow> BulkStock \<Rightarrow> bool" where
  "isStockOf item sellerId s = (b_productId s = c_productId item \<and> b_ownerId s = sellerId)"

text \<open>One iteration of the validation loop; \<open>Some e\<close> is the \<open>throw\<close>.\<close>

definition validateItem :: "Product list \<Rightarrow> ProductUnit list \<Rightarrow> BulkStock list \<Rightarrow> CartItem \<Rightarrow> error option" where
  "validateItem allProducts allUnits allStock item =
     (case resolveSeller allProducts item of
        None \<Rightarrow> Some (NoSeller (c_productName item))
      | Some sellerId \<Rightarrow>
          if c_isSerialized item then
            (let availableUnits = filter (isAvailableUnit item sellerId) allUnits
             in if int (length availableUnits) < c_quantity item
                then Some (InsufficientStock (c_productName item) (c_quantity item) (int (length availableUnits)))
                else None)
          else
            (case find (isStockOf item sellerId) allStock of
               None \<Rightarrow> Some (InsufficientBulkStock (c_productName item))
             | Some stock \<Rightarrow>
                 if b_quantity stock < c_quantity item
                 then Some (InsufficientBulkStock (c_productName item))
                 else None))"

fun validateCart :: "Product list \<Rightarrow> ProductUnit list \<Rightarrow> BulkStock list \<Rightarrow> CartItem list \<Rightarrow> error option" where
  "validateCart allProducts allUnits allStock [] = None"
| "validateCart allProducts allUnits allStock (item # items) =
     (case validateItem allProducts allUnits allStock item of
        Some e \<Rightarrow> Some e
      | None \<Rightarrow> validateCart allProducts allUnits allStock items)"

definition sellUnit :: "User \<Rightarrow> string \<Rightarrow> ProductUnit \<Rightarrow> ProductUnit" where
  "sellUnit user today u = u\<lparr>u_status := SOLD_TO_BUYER, u_buyerId := Some (usr_id user), u_dateSold := Some today\<rparr>"

text \<open>The execution loop over the cart, on the in-memory copies \<open>allUnits\<close>, \<open>allStock\<close>
  and \<open>newOrders\<close>.\<close>

fun executeCart ::
  "(nat \<Rightarrow> string) \<Rightarrow> string \<Rightarrow> User \<Rightarrow> Product list \<Rightarrow> CartItem list
   \<Rightarrow> ProductUnit list \<times> BulkStock list \<times> Order list
   \<Rightarrow> ProductUnit list \<times> BulkStock list \<times> Order list" where
  "executeCart generateId today user allProducts [] acc = acc"
| "executeCart generateId today user allProducts (item # items) (allUnits, allStock, newOrders) =
     (case resolveSeller allProducts item of
        None \<Rightarrow> executeCart generateId today user allProducts items (allUnits, allStock, newOrders)
      | Some sellerId \<Rightarrow>
          (let newOrder =
                 \<lparr>o_id = generateId (length newOrders), o_productId = c_productId item,
                  o_productName = c_productName item, o_sellerId = sellerId,
                  o_buyerId = usr_id user, o_buyerName = usr_name user,
                  o_quantity = c_quantity item, o_status = Awaiting_Confirmation,
                  o_assignedUnitIds = None, o_dateOrdered = today,
                  o_dateConfirmed = None, o_dateDelivered = None\<rparr>
           in if c_isSerialized item then
                (let availableUnits = filter (isAvailableUnit item sellerId) allUnits;
                     unitsToAssign = slice0 availableUnits (c_quantity item);
                     unitIds = map u_id unitsToAssign;
                     allUnits' = map (\<lambda>u. if u_id u \<in> set unitIds then sellUnit user today u else u) allUnits
                 in executeCart generateId today user allProducts items
                      (allUnits', allStock, newOrders @ [newOrder\<lparr>o_assignedUnitIds := Some unitIds\<rparr>]))
              else
                (let allStock' =
                       map (\<lambda>s. if isStockOf item sellerId s
                                 then s\<lparr>b_quantity := b_quantity s - c_quantity item\<rparr> else s) allStock
                 in executeCart generateId today user allProducts items
                      (allUnits, allStock', newOrders @ [newOrder]))))"

text \<open>Nothing is written before the commit phase, so a \<open>throw\<close> of the validation phase
  returns the store it was given.\<close>

definition processCheckout ::
  "(nat \<Rightarrow> string) \<Rightarrow> string \<Rightarrow> User \<Rightarrow> CartItem list \<Rightarrow> Store \<Rightarrow> (error + unit) \<times> Store" where
  "processCheckout generateId today user cartItems st =
     (case validateCart (products st) (units st) (bulkStock st) cartItems of
        Some e \<Rightarrow> (Inl e, st)
      | None \<Rightarrow>
          (case executeCart generateId today user (products st) cartItems (units st, bulkStock st, []) of
             (allUnits, allStock, newOrders) \<Rightarrow>
               (Inr (),
                st\<lparr>units := allUnits, bulkStock := allStock,
                   orders := orders st @ newOrders,
                   carts := (carts st)(usr_id user := None)\<rparr>)))"

section \<open>Fulfilment and cancellation (fulfillOrder, cancelOrder)\<close>

definition fulfillOrder :: "string \<Rightarrow> string \<Rightarrow> string list option \<Rightarrow> Store \<Rightarrow> Store" where
  "fulfillOrder today orderId unitIds st =
     (case find (\<lambda>ord. o_id ord = orderId) (orders st) of
        None \<Rightarrow> st
      | Some order \<Rightarrow>
          (let confirm = (\<lambda>ord. ord\<lparr>o_status := Confirmed, o_dateConfirmed := Some today\<rparr>)
           in case unitIds of
                None \<Rightarrow> st\<lparr>orders := updateFirst (\<lambda>ord. o_id ord = orderId) confirm (orders st)\<rparr>
              | Some ids \<Rightarrow>
                  if o_assignedUnitIds order = None \<or> o_assignedUnitIds order = Some [] then
                    st\<lparr>units := forEachUnit ids
                                  (\<lambda>u. u\<lparr>u_status := SOLD_TO_BUYER, u_buyerId := Some (o_buyerId order),
                                         u_dateSold := Some today\<rparr>) (units st),
                       orders := updateFirst (\<lambda>ord. o_id ord = orderId)
                                   (\<lambda>ord. (confirm ord)\<lparr>o_assignedUnitIds := Some ids\<rparr>) (orders st)\<rparr>
                  else st\<lparr>orders := updateFirst (\<lambda>ord. o_id ord = orderId) confirm (orders st)\<rparr>))"

definition cancelOrder :: "(nat \<Rightarrow> string) \<Rightarrow> string \<Rightarrow> Store \<Rightarrow> Store" where
  "cancelOrder generateId orderId st =
     (case find (\<lambda>ord. o_id ord = orderId) (orders st) of
        None \<Rightarrow> st
      | Some order \<Rightarrow>
          (let orders' = removeFirst (\<lambda>ord. o_id ord = orderId) (orders st)
           in case o_assignedUnitIds order of
                Some (uid # uids) \<Rightarrow>
                  st\<lparr>units := forEachUnit (uid # uids)
                                (\<lambda>u. u\<lparr>u_status := AT_SELLER, u_buyerId := None, u_dateSold := None\<rparr>) (units st),
                     orders := orders'\<rparr>
              | _ \<Rightarrow>
                  (let isSeller = (\<lambda>s. b_productId s = o_productId order \<and> b_ownerId s = o_sellerId order)
                   in case find isSeller (bulkStock st) of
                        Some stock \<Rightarrow>
                          st\<lparr>bulkStock := updateFirst isSeller
                                 (\<lambda>s. s\<lparr>b_quantity := b_quantity s + o_quantity order\<rparr>) (bulkStock st),
                             orders := orders'\<rparr>
                      | None \<Rightarrow>
                          st\<lparr>bulkStock := bulkStock st @
                                [\<lparr>b_id = generateId 0, b_productId = o_productId order,
                                  b_ownerId = o_sellerId order, b_quantity = o_quantity order\<rparr>],
                             orders := orders'\<rparr>)))"

section \<open>QR signing (generateSyncSignature, getSignedQRData, validateSignedQR)\<close>

definition SYSTEM_SECRET_KEY :: string where
  "SYSTEM_SECRET_KEY = ''LALLAN-ASKE-V1-SECRET''"

text \<open>\<open>Math.imul\<close> and \<open>^\<close> work on 32-bit integers, so the running hash is a \<open>32 word\<close>;
  \<open>(h ^ h >>> 16) >>> 0\<close> reads the result as unsigned, and \<open>toString(16)\<close> prints it in
  lower-case hexadecimal without leading zeros.\<close>

definition hashStep :: "32 word \<Rightarrow> char \<Rightarrow> 32 word" where
  "hashStep h c = (h XOR of_char c) * 2654435761"

definition generateSyncSignature :: "string \<Rightarrow> string" where
  "generateSyncSignature str =
     (let h = foldl hashStep 0xdeadbeef str
      in natToString 16 (unat (h XOR drop_bit 16 h)))"

definition getSignedQRData :: "string \<Rightarrow> string" where
  "getSignedQRData serialNumber =
     ''LS:'' @ serialNumber @ '':'' @ generateSyncSignature (serialNumber @ SYSTEM_SECRET_KEY)"

text \<open>\<open>s.split(sep)\<close> for a one-character separator.\<close>

fun split :: "char \<Rightarrow> string \<Rightarrow> string list" where
  "split sep [] = [[]]"
| "split sep (c # cs) =
     (if c = sep then [] # split sep cs
      else (case split sep cs of
              p # ps \<Rightarrow> (c # p) # ps
            | [] \<Rightarrow> [[c]]))"

datatype QRError = ExternalQR | MalformedQR | ForgedQR

text \<open>The result object \<open>{valid, serialNumber?, error?}\<close>: \<open>Inr serialNumber\<close> is
  \<open>{valid: true, serialNumber}\<close>, and \<open>Inl e\<close> is \<open>{valid: false, error}\<close> with the message of
  the failure class \<open>e\<close>.\<close>

definition validateSignedQR :: "string \<Rightarrow> QRError + string" where
  "validateSignedQR scannedText =
     (if take 3 scannedText \<noteq> ''LS:'' then Inl ExternalQR
      else
        (case split (CHR '':'') scannedText of
           [prefix, serialNumber, scannedSignature] \<Rightarrow>
             if scannedSignature \<noteq> generateSyncSignature (serialNumber @ SYSTEM_SECRET_KEY)
             then Inl ForgedQR
             else Inr serialNumber
         | _ \<Rightarrow> Inl MalformedQR))"

section \<open>Concrete stores used in the examples\<close>

definition emptyStore :: Store where
  "emptyStore = \<lparr>products = [], units = [], bulkStock = [], orders = [], carts = (\<lambda>_. None), settings = None\<rparr>"

definition mkUnit :: "string \<Rightarrow> string \<Rightarrow> UnitStatus \<Rightarrow> ProductUnit" where
  "mkUnit unitId serial st =
     \<lparr>u_id = unitId, u_productId = ''P'', u_serialNumber = serial, u_status = st,
      u_uniqueAuthHash = None, u_manufacturerId = ''M'', u_sellerId = None, u_buyerId = None,
      u_manufacturingDate = ''2024-01-01'', u_dateSentToSeller = None, u_dateSold = None,
      u_dateReturned = None\<rparr>"

definition smallRange :: GlobalSettings where
  "smallRange = \<lparr>serialRangeStart = 100000, serialRangeEnd = 100002, recycledSerials = []\<rparr>"

definition smallRangeEmpty :: Store where
  "smallRangeEmpty = emptyStore\<lparr>settings := Some smallRange\<rparr>"

definition smallRangeFull :: Store where
  "smallRangeFull =
     smallRangeEmpty\<lparr>units := [mkUnit ''u1'' ''100000'' IN_FACTORY, mkUnit ''u2'' ''100001'' IN_FACTORY,
                               mkUnit ''u3'' ''100002'' IN_FACTORY]\<rparr>"

definition productP :: Product where
  "productP = \<lparr>p_id = ''P'', p_name = ''Watch'', p_manufacturerId = ''M'', p_isSerialized = True\<rparr>"

definition stalePoolStore :: Store where
  "stalePoolStore =
     emptyStore\<lparr>units := [mkUnit ''u1'' ''100000'' IN_FACTORY],
                settings := Some \<lparr>serialRangeStart = 100000, serialRangeEnd = 100999,
                                   recycledSerials = [100007, 100000, 100005]\<rparr>\<rparr>"

text \<open>The store reached from the empty one by allocating one serial, registering the unit
  and deleting it again.\<close>

definition reclaimedStore :: "(string \<Rightarrow> string \<Rightarrow> string) \<Rightarrow> Store" where
  "reclaimedStore generateSecureHash =
     deleteProductUnit ''u1''
       (saveProductBatch generateSecureHash (\<lambda>_. ''id'') productP 1 [mkUnit ''u1'' ''100000'' IN_FACTORY] emptyStore)"

text \<open>A bulk product sold by its manufacturer \<open>M\<close>, who holds five pieces.\<close>

definition productB :: Product where
  "productB = \<lparr>p_id = ''B'', p_name = ''Strap'', p_manufacturerId = ''M'', p_isSerialized = False\<rparr>"

definition bulkStore :: Store where
  "bulkStore =
     emptyStore\<lparr>products := [productB],
                bulkStock := [\<lparr>b_id = ''s1'', b_productId = ''B'', b_ownerId = ''M'', b_quantity = 5\<rparr>]\<rparr>"

definition bulkLine :: "string \<Rightarrow> string option \<Rightarrow> int \<Rightarrow> CartItem" where
  "bulkLine lineId seller quantity =
     \<lparr>c_id = lineId, c_productId = ''B'', c_productName = ''Strap'', c_quantity = quantity,
      c_isSerialized = False, c_unitIds = None, c_sellerId = seller\<rparr>"

definition buyer :: User where
  "buyer = \<lparr>usr_id = ''buyer1'', usr_name = ''Asha''\<rparr>"

definition orderIds :: "nat \<Rightarrow> string" where
  "orderIds k = ''order-'' @ natToString 10 k"

text \<open>The store after the buyer has checked out three of the five pieces.\<close>

definition bulkStoreAfter :: Store where
  "bulkStoreAfter =
     snd (processCheckout orderIds ''2024-05-01'' buyer [bulkLine ''c1'' (Some ''M'') 3] bulkStore)"

text \<open>A serialized product at seller \<open>S\<close>, and an order of the buyer for it.\<close>

definition unitAt :: "string \<Rightarrow> string \<Rightarrow> UnitStatus \<Rightarrow> ProductUnit" where
  "unitAt unitId serial st = (mkUnit unitId serial st)\<lparr>u_sellerId := Some ''S''\<rparr>"

definition mkOrder :: "string \<Rightarrow> int \<Rightarrow> OrderStatus \<Rightarrow> string list option \<Rightarrow> Order" where
  "mkOrder orderId quantity st assigned =
     \<lparr>o_id = orderId, o_productId = ''P'', o_productName = ''Watch'', o_sellerId = ''S'',
      o_buyerId = ''buyer1'', o_buyerName = ''Asha'', o_quantity = quantity, o_status = st,
      o_assignedUnitIds = assigned, o_dateOrdered = ''2024-05-01'', o_dateConfirmed = None,
      o_dateDelivered = None\<rparr>"

text \<open>An order for one unit with nothing reserved, while the seller holds \<open>u1\<close> and the
  factory still holds \<open>u2\<close>.\<close>

definition unreservedStore :: Store where
  "unreservedStore =
     emptyStore\<lparr>products := [productP],
                units := [unitAt ''u1'' ''100000'' AT_SELLER, mkUnit ''u2'' ''100001'' IN_FACTORY],
                orders := [mkOrder ''o1'' 1 Awaiting_Confirmation None]\<rparr>"

text \<open>A delivered order whose assigned unit is, against the order, back at the seller.\<close>

definition conflictStore :: Store where
  "conflictStore =
     emptyStore\<lparr>products := [productP],
                units := [unitAt ''u1'' ''100000'' AT_SELLER],
                orders := [mkOrder ''o1'' 1 Delivered (Some [''u1''])]\<rparr>"



text \<open>What \<open>cancelOrder\<close> writes into a reserved unit.\<close>

definition releaseUnit :: "ProductUnit \<Rightarrow> ProductUnit" where
  "releaseUnit u = u\<lparr>u_status := AT_SELLER, u_buyerId := None, u_dateSold := None\<rparr>"


section \<open>Auxiliary notions for the analysis of checkout\<close>

text \<open>The counter or unit pool a line item draws on.\<close>

definition lineKey :: "Product list \<Rightarrow> CartItem \<Rightarrow> string \<times> string option" where
  "lineKey allProducts item = (c_productId item, resolveSeller allProducts item)"





text \<open>What the bulk lines of a cart subtract from a counter.\<close>

definition debit :: "Product list \<Rightarrow> CartItem list \<Rightarrow> BulkStock \<Rightarrow> int" where
  "debit allProducts cart s =
     sum_list (map c_quantity
       (filter (\<lambda>item. \<not> c_isSerialized item
                  \<and> lineKey allProducts item = (b_productId s, Some (b_ownerId s))) cart))"





section \<open>Properties of the serial allocator\<close>

lemma unusedIn_simps [simp]:
  "unusedIn used [] = []"
  "unusedIn used (x # xs) = (if x \<notin> set used then x # unusedIn used xs else unusedIn used xs)"
  "unusedIn used (xs @ ys) = unusedIn used xs @ unusedIn used ys"
  by (simp_all add: unusedIn_def)

lemma length_unusedIn_sort: "length (unusedIn used (sort xs)) = length (unusedIn used xs)"
  by (simp add: unusedIn_def filter_sort)

text \<open>What the first loop returns: it splits the pool into the numbers taken and the rest,
  and generates the taken numbers that are not in use.  It stops early only after a push.\<close>

lemma drainRecycled_spec:
  "drainRecycled quantity used pool generated = (generated', rest) \<Longrightarrow>
   \<exists>taken. pool = taken @ rest
     \<and> generated' = generated @ map toString (unusedIn used taken)
     \<and> (int (length generated') < quantity \<longrightarrow> rest = [])
     \<and> (int (length generated) < quantity \<longrightarrow> int (length generated') \<le> quantity)
     \<and> (taken = [] \<or> rest = [] \<or> last taken \<notin> set used)"
proof (induction quantity used pool generated rule: drainRecycled.induct)
  case (1 quantity used generated)
  then show ?case by simp
next
  case (2 quantity used candidate rest0 generated)
  show ?case
  proof (cases "int (length generated) < quantity")
    case False
    with 2(3) show ?thesis by simp
  next
    case lt: True
    show ?thesis
    proof (cases "candidate \<in> set used")
      case True
      with lt 2(3) have "drainRecycled quantity used rest0 generated = (generated', rest)" by simp
      from 2(2)[OF lt _ this] True obtain taken where
        t: "rest0 = taken @ rest" "generated' = generated @ map toString (unusedIn used taken)"
           "int (length generated') < quantity \<longrightarrow> rest = []"
           "int (length generated) < quantity \<longrightarrow> int (length generated') \<le> quantity"
           "taken = [] \<or> rest = [] \<or> last taken \<notin> set used" by auto
      show ?thesis
      proof (intro exI[of _ "candidate # taken"] conjI)
        show "candidate # taken = [] \<or> rest = [] \<or> last (candidate # taken) \<notin> set used"
        proof (cases "taken = []")
          case True
          with t(1,2,3) lt show ?thesis by auto
        next
          case False
          with t(5) show ?thesis by auto
        qed
      qed (use t True in auto)
    next
      case False
      with lt 2(3) have d: "drainRecycled quantity used rest0 (generated @ [toString candidate]) = (generated', rest)" by simp
      from 2(1)[OF lt False d] obtain taken where
        t: "rest0 = taken @ rest" "generated' = (generated @ [toString candidate]) @ map toString (unusedIn used taken)"
           "int (length generated') < quantity \<longrightarrow> rest = []"
           "int (length (generated @ [toString candidate])) < quantity \<longrightarrow> int (length generated') \<le> quantity"
           "taken = [] \<or> rest = [] \<or> last taken \<notin> set used" by auto
      show ?thesis
      proof (intro exI[of _ "candidate # taken"] conjI)
        show "int (length generated) < quantity \<longrightarrow> int (length generated') \<le> quantity"
        proof (cases "int (length (generated @ [toString candidate])) < quantity")
          case True with t(4) show ?thesis by simp
        next
          case nlt: False
          have "generated' = generated @ [toString candidate]"
            using d nlt by (cases rest0) auto
          with lt show ?thesis by simp
        qed
        show "candidate # taken = [] \<or> rest = [] \<or> last (candidate # taken) \<notin> set used"
          using t(5) False by auto
      qed (use t False in auto)
    qed
  qed
qed

lemma scanRange_fail:
  "int (length generated) + int (length (unusedIn used [candidate..rangeEnd])) < quantity \<Longrightarrow>
   scanRange quantity used rangeEnd candidate generated = Inl RangeExhausted"
proof (induction quantity used rangeEnd candidate generated rule: scanRange.induct)
  case (1 quantity used rangeEnd candidate generated)
  have lt: "int (length generated) < quantity" using 1(2) by linarith
  show ?case
  proof (cases "candidate > rangeEnd")
    case True
    with lt show ?thesis by (subst scanRange.simps) simp
  next
    case False
    then have u: "[candidate..rangeEnd] = candidate # [candidate + 1..rangeEnd]"
      by (simp add: upto_rec1)
    let ?g = "if candidate \<notin> set used then generated @ [toString candidate] else generated"
    have "int (length ?g) + int (length (unusedIn used [candidate + 1..rangeEnd])) < quantity"
      using 1(2) u by auto
    from 1(1)[OF lt False this] lt False show ?thesis
      by (subst scanRange.simps) simp
  qed
qed

lemma scanRange_ok:
  "quantity \<le> int (length generated) + int (length (unusedIn used [candidate..rangeEnd])) \<Longrightarrow>
   scanRange quantity used rangeEnd candidate generated =
     Inr (generated @ map toString (take (nat (quantity - int (length generated))) (unusedIn used [candidate..rangeEnd])))"
proof (induction quantity used rangeEnd candidate generated rule: scanRange.induct)
  case (1 quantity used rangeEnd candidate generated)
  show ?case
  proof (cases "int (length generated) < quantity")
    case False
    then show ?thesis by (subst scanRange.simps) simp
  next
    case lt: True
    show ?thesis
    proof (cases "candidate > rangeEnd")
      case True
      with lt 1(2) show ?thesis by simp
    next
      case False
      then have u: "[candidate..rangeEnd] = candidate # [candidate + 1..rangeEnd]"
        by (simp add: upto_rec1)
      let ?g = "if candidate \<notin> set used then generated @ [toString candidate] else generated"
      have "quantity \<le> int (length ?g) + int (length (unusedIn used [candidate + 1..rangeEnd]))"
        using 1(2) u by auto
      from 1(1)[OF lt False this] have
        ih: "scanRange quantity used rangeEnd (candidate + 1) ?g =
             Inr (?g @ map toString (take (nat (quantity - int (length ?g))) (unusedIn used [candidate + 1..rangeEnd])))" .
      have n: "nat (quantity - int (length generated)) = Suc (nat (quantity - int (length generated) - 1))"
        using lt by simp
      show ?thesis
        apply (subst scanRange.simps)
        using lt False ih u n by (auto simp: diff_diff_eq add.commute)
    qed
  qed
qed

text \<open>The call succeeds exactly when enough serials are available: this lemma is the
  converse of the failure theorem below.\<close>

lemma generateNextSerialBatch_succeeds:
  assumes safe: "safeSerialDomain st"
      and enough_available: "quantity \<le> availableSerials st"
  shows "\<exists>result st'. generateNextSerialBatch quantity st = (Inr result, st')
                    \<and> int (length result) = max 0 quantity"
proof -
  let ?s = "getGlobalSettings st"
  let ?used = "usedNumbers (units st)"
  let ?free = "unusedIn ?used [serialRangeStart ?s..serialRangeEnd ?s]"
  obtain generated pool where
    d: "drainRecycled quantity ?used (sort (recycledSerials ?s)) [] = (generated, pool)"
    by (cases "drainRecycled quantity ?used (sort (recycledSerials ?s)) []") auto
  from drainRecycled_spec[OF d] obtain taken where
    t: "sort (recycledSerials ?s) = taken @ pool"
       "generated = map toString (unusedIn ?used taken)"
       "int (length generated) < quantity \<longrightarrow> pool = []"
       "int (length ([]::string list)) < quantity \<longrightarrow> int (length generated) \<le> quantity" by auto
  show ?thesis
  proof (cases "int (length generated) < quantity")
    case False
    then have "generateNextSerialBatch quantity st = (Inr generated, saveGlobalSettings (?s\<lparr>recycledSerials := pool\<rparr>) st)"
      using d by (simp add: generateNextSerialBatch_def Let_def)
    moreover have "int (length generated) = max 0 quantity"
    proof (cases "0 < quantity")
      case True
      with t(4) False show ?thesis by simp
    next
      case q0: False
      then have "generated = []" using d by (cases "sort (recycledSerials ?s)") auto
      with q0 show ?thesis by simp
    qed
    ultimately show ?thesis by blast
  next
    case True
    then have "pool = []" using t(3) by simp
    then have len: "length generated = length (unusedIn ?used (recycledSerials ?s))"
      using t(1,2) length_unusedIn_sort[of ?used "recycledSerials ?s"] by simp
    have enough: "quantity \<le> int (length generated) + int (length ?free)"
      using enough_available len by (simp add: availableSerials_def Let_def)
    let ?result = "generated @ map toString (take (nat (quantity - int (length generated))) ?free)"
    have "scanRange quantity ?used (serialRangeEnd ?s) (serialRangeStart ?s) generated = Inr ?result"
      using enough by (rule scanRange_ok)
    then have "generateNextSerialBatch quantity st = (Inr ?result, saveGlobalSettings (?s\<lparr>recycledSerials := pool\<rparr>) st)"
      using d True by (simp add: generateNextSerialBatch_def Let_def)
    moreover have "int (length ?result) = max 0 quantity"
    proof -
      have "length (take (nat (quantity - int (length generated))) ?free) = nat (quantity - int (length generated))"
        using True enough by (simp add: min_def) linarith
      then show ?thesis using True by simp
    qed
    ultimately show ?thesis by blast
  qed
qed

text \<open>
  Claim C6.  On a store whose range bounds, reclaimed numbers and numeric serials are safe
  integers: when the reclaimed numbers not in use together with the free numbers of the
  managed range are fewer than the requested quantity, \<open>generateNextSerialBatch\<close> fails
  with the range-exhaustion error, returns no serials, and leaves the whole store, the
  reclaimed pool included, as it was.
\<close>

theorem generateNextSerialBatch_range_exhausted:
  assumes safe: "safeSerialDomain st"
      and short: "availableSerials st < quantity"
  shows "generateNextSerialBatch quantity st = (Inl RangeExhausted, st)"
proof -
  let ?s = "getGlobalSettings st"
  let ?used = "usedNumbers (units st)"
  obtain generated pool where
    d: "drainRecycled quantity ?used (sort (recycledSerials ?s)) [] = (generated, pool)"
    by (cases "drainRecycled quantity ?used (sort (recycledSerials ?s)) []") auto
  from drainRecycled_spec[OF d] obtain taken where
    t: "sort (recycledSerials ?s) = taken @ pool"
       "generated = map toString (unusedIn ?used taken)"
       "int (length generated) < quantity \<longrightarrow> pool = []" by auto
  have le: "length generated \<le> length (unusedIn ?used (recycledSerials ?s))"
  proof -
    have "length (unusedIn ?used (sort (recycledSerials ?s))) = length generated + length (unusedIn ?used pool)"
      using t(1,2) by simp
    then show ?thesis by (simp add: length_unusedIn_sort)
  qed
  have lt: "int (length generated) < quantity"
    using short le by (simp add: availableSerials_def Let_def)
  then have "pool = []" using t(3) by simp
  then have len: "length generated = length (unusedIn ?used (recycledSerials ?s))"
    using t(1,2) length_unusedIn_sort[of ?used "recycledSerials ?s"] by simp
  have "scanRange quantity ?used (serialRangeEnd ?s) (serialRangeStart ?s) generated = Inl RangeExhausted"
    using short len by (intro scanRange_fail) (simp add: availableSerials_def Let_def)
  then show ?thesis
    using d lt by (simp add: generateNextSerialBatch_def Let_def)
qed

lemmas allocator_eval =
  generateNextSerialBatch_def getGlobalSettings_def usedNumbers_def List.map_filter_def
  scanRange.simps toString_def natToString.simps digitChar_def saveGlobalSettings_def Let_def
  emptyStore_def mkUnit_def smallRange_def smallRangeEmpty_def smallRangeFull_def productP_def
  availableSerials_def parseInt_def parseUnsigned_def parseDigits_def isDigitOf_def
  digitValue_def isWhiteSpace_def safeSerialDomain_def isSafeInteger_def

text \<open>The scenario of the specification: with the range 100000..100002 and an empty pool,
  three serials are allocated; with those three in use by live units, one more cannot be.\<close>

theorem generateNextSerialBatch_range_exhausted_witness:
  "fst (generateNextSerialBatch 3 smallRangeEmpty) = Inr [''100000'', ''100001'', ''100002'']
   \<and> safeSerialDomain smallRangeFull
   \<and> availableSerials smallRangeFull < 1
   \<and> generateNextSerialBatch 1 smallRangeFull = (Inl RangeExhausted, smallRangeFull)"
proof -
  have s: "safeSerialDomain smallRangeFull"
    by (simp add: allocator_eval)
  have a: "availableSerials smallRangeFull < 1"
    by (simp add: allocator_eval upto_rec1)
  have b: "fst (generateNextSerialBatch 3 smallRangeEmpty) = Inr [''100000'', ''100001'', ''100002'']"
    by (simp add: allocator_eval)
  from s a b generateNextSerialBatch_range_exhausted[OF s a] show ?thesis by simp
qed






lemma sort_min_head:
  assumes "S \<in> set xs" "\<forall>x \<in> set xs. S \<le> x"
  shows "\<exists>r. sort xs = S # r"
proof -
  have ne: "sort xs \<noteq> []" using assms(1) by (metis empty_iff empty_set set_sort)
  then obtain y r where yr: "sort xs = y # r" by (cases "sort xs") auto
  have "sorted (y # r)" using yr by (metis sorted_sort)
  moreover have "S \<in> set (y # r)" using assms(1) yr by (metis set_sort)
  ultimately have "y \<le> S" by auto
  moreover have "y \<in> set xs" using yr by (metis list.set_intros(1) set_sort)
  ultimately have "y = S" using assms(2) by force
  with yr show ?thesis by simp
qed

lemma drainRecycled_one:
  "S \<notin> set used \<Longrightarrow> \<exists>pool. drainRecycled 1 used (S # r) [] = ([toString S], pool)"
  by (cases r) auto

text \<open>
  Claim C7.  Let \<open>S\<close>, the number the serial of the unit found under \<open>unitId\<close> parses as,
  and the reclaimed numbers be safe integers.  Deleting the unit leaves \<open>S\<close> in the
  reclaimed pool exactly once more than before if it was absent and not at all more if it
  was present; and if \<open>S\<close> is then the lowest reclaimed number and no remaining unit uses it,
  allocating one serial returns \<open>S\<close>.  (The serials of the other units need no bound: a
  serial beyond the safe integers parses, exactly or rounded, to a number beyond them,
  which the safe \<open>S\<close> never equals.)
\<close>

theorem reclaim_round_trip:
  assumes f: "find (\<lambda>u. u_id u = unitId) (units st) = Some u"
      and p: "parseInt (u_serialNumber u) = Some S"
      and safeS: "isSafeInteger S"
      and safePool: "list_all isSafeInteger (recycledSerials (getGlobalSettings st))"
  shows "recycledSerials (getGlobalSettings (deleteProductUnit unitId st)) =
           (if S \<in> set (recycledSerials (getGlobalSettings st))
            then recycledSerials (getGlobalSettings st)
            else recycledSerials (getGlobalSettings st) @ [S])
       \<and> ((\<forall>x \<in> set (recycledSerials (getGlobalSettings (deleteProductUnit unitId st))). S \<le> x)
            \<and> S \<notin> set (usedNumbers (units (deleteProductUnit unitId st)))
          \<longrightarrow> fst (generateNextSerialBatch 1 (deleteProductUnit unitId st)) = Inr [toString S])"
proof -
  let ?st' = "deleteProductUnit unitId st"
  have g: "getGlobalSettings (st\<lparr>units := us\<rparr>) = getGlobalSettings st" for us
    by (simp add: getGlobalSettings_def)
  have pool: "recycledSerials (getGlobalSettings ?st') =
           (if S \<in> set (recycledSerials (getGlobalSettings st))
            then recycledSerials (getGlobalSettings st)
            else recycledSerials (getGlobalSettings st) @ [S])"
    using f p by (simp add: deleteProductUnit_def Let_def g saveGlobalSettings_def) (simp add: getGlobalSettings_def)
  then have mem: "S \<in> set (recycledSerials (getGlobalSettings ?st'))" by simp
  have "fst (generateNextSerialBatch 1 ?st') = Inr [toString S]"
    if lo: "\<forall>x \<in> set (recycledSerials (getGlobalSettings ?st')). S \<le> x"
    and nu: "S \<notin> set (usedNumbers (units ?st'))"
  proof -
    from sort_min_head[OF mem lo] obtain r where r: "sort (recycledSerials (getGlobalSettings ?st')) = S # r" by blast
    from drainRecycled_one[OF nu] obtain pool' where
      "drainRecycled 1 (usedNumbers (units ?st')) (S # r) [] = ([toString S], pool')" by blast
    with r show ?thesis by (simp add: generateNextSerialBatch_def Let_def)
  qed
  with pool show ?thesis by blast
qed

theorem reclaim_round_trip_witness:
  "find (\<lambda>u. u_id u = ''u1'') (units stalePoolStore) = Some (mkUnit ''u1'' ''100000'' IN_FACTORY)
   \<and> parseInt (u_serialNumber (mkUnit ''u1'' ''100000'' IN_FACTORY)) = Some 100000
   \<and> isSafeInteger 100000
   \<and> list_all isSafeInteger (recycledSerials (getGlobalSettings stalePoolStore))
   \<and> recycledSerials (getGlobalSettings (deleteProductUnit ''u1'' stalePoolStore)) = [100007, 100000, 100005]
   \<and> fst (generateNextSerialBatch 1 (deleteProductUnit ''u1'' stalePoolStore)) = Inr [''100000'']
   \<and> recycledSerials (getGlobalSettings (deleteProductUnit ''u2'' smallRangeFull)) = [100001]
   \<and> fst (generateNextSerialBatch 1 (deleteProductUnit ''u2'' smallRangeFull)) = Inr [''100001'']"
proof -
  have f: "find (\<lambda>u. u_id u = ''u1'') (units stalePoolStore) = Some (mkUnit ''u1'' ''100000'' IN_FACTORY)"
    by (simp add: stalePoolStore_def emptyStore_def mkUnit_def)
  have p: "parseInt (u_serialNumber (mkUnit ''u1'' ''100000'' IN_FACTORY)) = Some 100000"
    by (simp add: allocator_eval)
  have sS: "isSafeInteger 100000" by (simp add: isSafeInteger_def)
  have sP: "list_all isSafeInteger (recycledSerials (getGlobalSettings stalePoolStore))"
    by (simp add: stalePoolStore_def allocator_eval)
  have pool: "recycledSerials (getGlobalSettings stalePoolStore) = [100007, 100000, 100005]"
    by (simp add: stalePoolStore_def allocator_eval)
  have used: "100000 \<notin> set (usedNumbers (units (deleteProductUnit ''u1'' stalePoolStore)))"
    by (simp add: stalePoolStore_def deleteProductUnit_def allocator_eval)
  have s: "toString 100000 = ''100000''"
    by (simp add: allocator_eval)
  from reclaim_round_trip[OF f p sS sP] pool used s
  have a: "recycledSerials (getGlobalSettings (deleteProductUnit ''u1'' stalePoolStore)) = [100007, 100000, 100005]"
          "fst (generateNextSerialBatch 1 (deleteProductUnit ''u1'' stalePoolStore)) = Inr [''100000'']"
    by simp_all
  have f2: "find (\<lambda>u. u_id u = ''u2'') (units smallRangeFull) = Some (mkUnit ''u2'' ''100001'' IN_FACTORY)"
    by (simp add: smallRangeFull_def smallRangeEmpty_def emptyStore_def mkUnit_def)
  have p2: "parseInt (u_serialNumber (mkUnit ''u2'' ''100001'' IN_FACTORY)) = Some 100001"
    by (simp add: allocator_eval)
  have sS2: "isSafeInteger 100001" by (simp add: isSafeInteger_def)
  have sP2: "list_all isSafeInteger (recycledSerials (getGlobalSettings smallRangeFull))"
    by (simp add: allocator_eval)
  have pool2: "recycledSerials (getGlobalSettings smallRangeFull) = []"
    by (simp add: allocator_eval)
  have used2: "100001 \<notin> set (usedNumbers (units (deleteProductUnit ''u2'' smallRangeFull)))"
    by (simp add: deleteProductUnit_def allocator_eval)
  have s2: "toString 100001 = ''100001''"
    by (simp add: allocator_eval)
  from reclaim_round_trip[OF f2 p2 sS2 sP2] pool2 used2 s2
  have b: "recycledSerials (getGlobalSettings (deleteProductUnit ''u2'' smallRangeFull)) = [100001]"
          "fst (generateNextSerialBatch 1 (deleteProductUnit ''u2'' smallRangeFull)) = Inr [''100001'']"
    by simp_all
  from f p sS sP a b show ?thesis by simp
qed

text \<open>
  Claim C3 (evaluation at the failing input).  From the empty store: one serial is
  allocated (100000), the unit is registered and deleted again, which puts 100000 into the
  reclaimed pool while no live unit uses it.  The next call for two serials takes 100000
  from the pool and then finds 100000 free again at the start of the range: it returns the
  same serial twice, and registering that batch leaves two live units with one serial.
\<close>

theorem generateNextSerialBatch_duplicate_serials:
  "fst (generateNextSerialBatch 1 emptyStore) = Inr [''100000'']
   \<and> units (reclaimedStore hash) = []
   \<and> recycledSerials (getGlobalSettings (reclaimedStore hash)) = [100000]
   \<and> fst (generateNextSerialBatch 2 (reclaimedStore hash)) = Inr [''100000'', ''100000'']
   \<and> map u_serialNumber
         (units (saveProductBatch hash (\<lambda>_. ''id'') productP 2
                   [mkUnit ''u2'' ''100000'' IN_FACTORY, mkUnit ''u3'' ''100000'' IN_FACTORY]
                   (snd (generateNextSerialBatch 2 (reclaimedStore hash)))))
       = [''100000'', ''100000'']"
  by (simp add: reclaimedStore_def deleteProductUnit_def saveProductBatch_def allocator_eval)

section \<open>Properties of checkout\<close>

lemma validateCart_Some:
  "validateCart ps us bs items = Some e \<Longrightarrow>
   \<exists>failing \<in> set items. validateItem ps us bs failing = Some e"
  by (induction items) (auto split: option.splits)

lemma validateCart_fails:
  "item \<in> set items \<Longrightarrow> validateItem ps us bs item \<noteq> None \<Longrightarrow>
   validateCart ps us bs items \<noteq> None"
  by (induction items) (auto split: option.splits)

lemma validateItem_error:
  "validateItem ps us bs item = Some e \<Longrightarrow>
     e = NoSeller (c_productName item)
   \<or> e = InsufficientStock (c_productName item) (c_quantity item)
           (int (length (filter (isAvailableUnit item (the (resolveSeller ps item))) us)))
   \<or> e = InsufficientBulkStock (c_productName item)"
  by (auto simp: validateItem_def Let_def split: option.splits if_splits)

text \<open>
  Claim C1.  If some line item of the cart fails the validation of \<open>processCheckout\<close> (no
  seller can be resolved, fewer available serialized units than requested, or no or too
  small a bulk counter), the call ends with the error of a failing line item of the cart,
  which carries that item's product name, and the store it returns is the store it was
  given: units, bulk stock, orders and every cart are unchanged.
\<close>

theorem processCheckout_all_or_nothing:
  assumes "item \<in> set cartItems"
      and "validateItem (products st) (units st) (bulkStock st) item \<noteq> None"
  shows "\<exists>failing e.
           failing \<in> set cartItems
         \<and> validateItem (products st) (units st) (bulkStock st) failing = Some e
         \<and> (e = NoSeller (c_productName failing)
             \<or> e = InsufficientStock (c_productName failing) (c_quantity failing)
                     (int (length (filter (isAvailableUnit failing (the (resolveSeller (products st) failing))) (units st))))
             \<or> e = InsufficientBulkStock (c_productName failing))
         \<and> processCheckout generateId today user cartItems st = (Inl e, st)"
proof -
  from validateCart_fails[OF assms] obtain e where
    e: "validateCart (products st) (units st) (bulkStock st) cartItems = Some e" by auto
  from validateCart_Some[OF e] obtain failing where
    f: "failing \<in> set cartItems" "validateItem (products st) (units st) (bulkStock st) failing = Some e"
    by auto
  have "processCheckout generateId today user cartItems st = (Inl e, st)"
    using e by (simp add: processCheckout_def)
  with f validateItem_error[OF f(2)] show ?thesis by blast
qed

lemmas checkout_eval =
  processCheckout_def validateItem_def resolveSeller_def isStockOf_def isAvailableUnit_def
  sellUnit_def slice0_def Let_def bulkStore_def bulkLine_def productB_def buyer_def emptyStore_def

text \<open>The scenario of the specification: five pieces, three checked out, two left and one
  order awaiting confirmation; a cart with a line that fits and a line that does not is
  rejected as a whole and the store stays as it was.\<close>

theorem processCheckout_all_or_nothing_witness:
  "map b_quantity (bulkStock bulkStoreAfter) = [2]
   \<and> map o_status (orders bulkStoreAfter) = [Awaiting_Confirmation]
   \<and> validateItem (products bulkStoreAfter) (units bulkStoreAfter) (bulkStock bulkStoreAfter)
         (bulkLine ''c2'' (Some ''M'') 1) = None
   \<and> processCheckout orderIds ''2024-05-02'' buyer
         [bulkLine ''c2'' (Some ''M'') 1, bulkLine ''c3'' (Some ''M'') 3] bulkStoreAfter
       = (Inl (InsufficientBulkStock ''Strap''), bulkStoreAfter)"
proof -
  let ?cart = "[bulkLine ''c2'' (Some ''M'') 1, bulkLine ''c3'' (Some ''M'') 3]"
  have q: "map b_quantity (bulkStock bulkStoreAfter) = [2]"
    by (simp add: bulkStoreAfter_def checkout_eval)
  have o: "map o_status (orders bulkStoreAfter) = [Awaiting_Confirmation]"
    by (simp add: bulkStoreAfter_def checkout_eval)
  have ok: "validateItem (products bulkStoreAfter) (units bulkStoreAfter) (bulkStock bulkStoreAfter)
         (bulkLine ''c2'' (Some ''M'') 1) = None"
    by (simp add: bulkStoreAfter_def checkout_eval)
  have m: "bulkLine ''c3'' (Some ''M'') 3 \<in> set ?cart" by simp
  have v: "validateItem (products bulkStoreAfter) (units bulkStoreAfter) (bulkStock bulkStoreAfter)
         (bulkLine ''c3'' (Some ''M'') 3) \<noteq> None"
    by (simp add: bulkStoreAfter_def checkout_eval)
  from processCheckout_all_or_nothing[OF m v, of orderIds "''2024-05-02''" buyer]
  obtain failing e where
    f: "failing \<in> set ?cart"
       "validateItem (products bulkStoreAfter) (units bulkStoreAfter) (bulkStock bulkStoreAfter) failing = Some e"
       "processCheckout orderIds ''2024-05-02'' buyer ?cart bulkStoreAfter = (Inl e, bulkStoreAfter)"
    by blast
  from f(1,2) ok have "failing = bulkLine ''c3'' (Some ''M'') 3" by auto
  with f(2) have "e = InsufficientBulkStock ''Strap''"
    by (simp add: bulkStoreAfter_def checkout_eval)
  with f(3) q o ok show ?thesis by simp
qed

text \<open>
  Claim C2 (evaluation at the failing input).  The counter of product \<open>B\<close> at \<open>M\<close> holds
  five.  The cart has two lines of three pieces each that resolve to this counter, one
  naming the seller and one falling back to the manufacturer.  Each line passes the
  validation, which compares it with the stored counter alone, and the execution phase
  subtracts both: the counter ends at minus one.
\<close>

theorem processCheckout_negative_bulk:
  "validateCart (products bulkStore) (units bulkStore) (bulkStock bulkStore)
       [bulkLine ''c1'' (Some ''M'') 3, bulkLine ''c2'' None 3] = None
   \<and> map b_quantity (bulkStock (snd (processCheckout orderIds ''2024-05-01'' buyer
         [bulkLine ''c1'' (Some ''M'') 3, bulkLine ''c2'' None 3] bulkStore))) = [-1]"
  by (simp add: checkout_eval)

section \<open>Properties of fulfilment, returns and cancellation\<close>

lemma find_updateFirst_same:
  "(\<And>x. P x \<Longrightarrow> P (f x)) \<Longrightarrow> find P (updateFirst P f xs) = map_option f (find P xs)"
  by (induction xs) auto

lemma find_updateFirst_unit:
  assumes "\<And>u. u_id (f u) = u_id u"
  shows "find (\<lambda>u. u_id u = a) (updateFirst (\<lambda>u. u_id u = b) f us) =
         (if a = b then map_option f (find (\<lambda>u. u_id u = a) us) else find (\<lambda>u. u_id u = a) us)"
  using assms by (induction us) auto

lemma find_forEachUnit:
  assumes idp: "\<And>u. u_id (f u) = u_id u"
      and idem: "\<And>u. f (f u) = f u"
  shows "find (\<lambda>u. u_id u = a) (forEachUnit ids f us) =
         (if a \<in> set ids then map_option f (find (\<lambda>u. u_id u = a) us) else find (\<lambda>u. u_id u = a) us)"
proof (induction ids arbitrary: us)
  case Nil
  then show ?case by (simp add: forEachUnit_def)
next
  case (Cons b ids)
  have step: "forEachUnit (b # ids) f us = forEachUnit ids f (updateFirst (\<lambda>u. u_id u = b) f us)"
    by (simp add: forEachUnit_def)
  show ?case
    unfolding step Cons.IH
    by (cases "find (\<lambda>u. u_id u = a) us") (auto simp: find_updateFirst_unit[of f, OF idp] idem)
qed

text \<open>
  Claim C9 (as amended).  \<open>fulfillOrder\<close> checks neither the number of supplied unit ids
  nor the status of the units.  For an existing order without reserved units and any
  list of ids, the order becomes Confirmed with the confirmation date and the supplied
  ids recorded on it, and every supplied id that names a unit has that unit moved to
  SOLD_TO_BUYER with the order's buyer and the sale date; other units are untouched.
\<close>

theorem fulfillOrder_explicit_units:
  assumes f: "find (\<lambda>x. o_id x = orderId) (orders st) = Some order"
      and n: "o_assignedUnitIds order = None \<or> o_assignedUnitIds order = Some []"
  shows "find (\<lambda>x. o_id x = orderId) (orders (fulfillOrder today orderId (Some ids) st)) =
           Some (order\<lparr>o_status := Confirmed, o_dateConfirmed := Some today, o_assignedUnitIds := Some ids\<rparr>)
       \<and> (\<forall>uid. find (\<lambda>u. u_id u = uid) (units (fulfillOrder today orderId (Some ids) st)) =
             (if uid \<in> set ids
              then map_option (\<lambda>u. u\<lparr>u_status := SOLD_TO_BUYER, u_buyerId := Some (o_buyerId order),
                                       u_dateSold := Some today\<rparr>)
                     (find (\<lambda>u. u_id u = uid) (units st))
              else find (\<lambda>u. u_id u = uid) (units st)))"
proof -
  let ?sell = "\<lambda>u. u\<lparr>u_status := SOLD_TO_BUYER, u_buyerId := Some (o_buyerId order), u_dateSold := Some today\<rparr>"
  let ?conf = "\<lambda>ord. ord\<lparr>o_status := Confirmed, o_dateConfirmed := Some today, o_assignedUnitIds := Some ids\<rparr>"
  have st': "fulfillOrder today orderId (Some ids) st =
               st\<lparr>units := forEachUnit ids ?sell (units st),
                  orders := updateFirst (\<lambda>x. o_id x = orderId) ?conf (orders st)\<rparr>"
    using f n by (auto simp: fulfillOrder_def Let_def)
  have o: "find (\<lambda>x. o_id x = orderId) (updateFirst (\<lambda>x. o_id x = orderId) ?conf (orders st)) = Some (?conf order)"
    using f by (simp add: find_updateFirst_same)
  have u: "find (\<lambda>u. u_id u = uid) (forEachUnit ids ?sell (units st)) =
             (if uid \<in> set ids then map_option ?sell (find (\<lambda>u. u_id u = uid) (units st))
              else find (\<lambda>u. u_id u = uid) (units st))" for uid
    by (rule find_forEachUnit) simp_all
  show ?thesis unfolding st' using o u by simp
qed

lemmas order_eval =
  unreservedStore_def conflictStore_def mkOrder_def unitAt_def mkUnit_def emptyStore_def productP_def
  fulfillOrder_def requestOrderReturn_def processBuyerReturn_def cancelOrder_def forEachUnit_def Let_def

text \<open>Against claim C9 as stated: an order for one unit is fulfilled with two ids, one of
  them a unit still IN_FACTORY, and both units end SOLD_TO_BUYER.\<close>

theorem fulfillOrder_counterexample:
  "map o_quantity (orders unreservedStore) = [1]
   \<and> map o_assignedUnitIds (orders unreservedStore) = [None]
   \<and> map u_status (units unreservedStore) = [AT_SELLER, IN_FACTORY]
   \<and> map o_status (orders (fulfillOrder ''2024-05-03'' ''o1'' (Some [''u1'', ''u2'']) unreservedStore)) = [Confirmed]
   \<and> map o_assignedUnitIds (orders (fulfillOrder ''2024-05-03'' ''o1'' (Some [''u1'', ''u2'']) unreservedStore))
       = [Some [''u1'', ''u2'']]
   \<and> map u_status (units (fulfillOrder ''2024-05-03'' ''o1'' (Some [''u1'', ''u2'']) unreservedStore))
       = [SOLD_TO_BUYER, SOLD_TO_BUYER]"
  by (simp add: order_eval)

theorem fulfillOrder_explicit_units_witness:
  "find (\<lambda>x. o_id x = ''o1'') (orders unreservedStore) = Some (mkOrder ''o1'' 1 Awaiting_Confirmation None)
   \<and> map_option o_status (find (\<lambda>x. o_id x = ''o1'')
        (orders (fulfillOrder ''2024-05-03'' ''o1'' (Some [''u1'']) unreservedStore))) = Some Confirmed
   \<and> map_option u_status (find (\<lambda>u. u_id u = ''u1'')
        (units (fulfillOrder ''2024-05-03'' ''o1'' (Some [''u1'']) unreservedStore))) = Some SOLD_TO_BUYER
   \<and> map_option u_buyerId (find (\<lambda>u. u_id u = ''u1'')
        (units (fulfillOrder ''2024-05-03'' ''o1'' (Some [''u1'']) unreservedStore))) = Some (Some ''buyer1'')
   \<and> map_option u_status (find (\<lambda>u. u_id u = ''u2'')
        (units (fulfillOrder ''2024-05-03'' ''o1'' (Some [''u1'']) unreservedStore))) = Some IN_FACTORY"
proof -
  have f: "find (\<lambda>x. o_id x = ''o1'') (orders unreservedStore) = Some (mkOrder ''o1'' 1 Awaiting_Confirmation None)"
    by (simp add: unreservedStore_def emptyStore_def mkOrder_def)
  have n: "o_assignedUnitIds (mkOrder ''o1'' 1 Awaiting_Confirmation None) = None
         \<or> o_assignedUnitIds (mkOrder ''o1'' 1 Awaiting_Confirmation None) = Some []"
    by (simp add: mkOrder_def)
  have u1: "find (\<lambda>u. u_id u = ''u1'') (units unreservedStore) = Some (unitAt ''u1'' ''100000'' AT_SELLER)"
    by (simp add: unreservedStore_def emptyStore_def unitAt_def mkUnit_def)
  have u2: "find (\<lambda>u. u_id u = ''u2'') (units unreservedStore) = Some (mkUnit ''u2'' ''100001'' IN_FACTORY)"
    by (simp add: unreservedStore_def emptyStore_def unitAt_def mkUnit_def)
  from fulfillOrder_explicit_units[OF f n, of "''2024-05-03''" "[''u1'']"] f u1 u2
  show ?thesis by (simp add: mkOrder_def mkUnit_def unitAt_def)
qed

lemma find_forEachUnit_status:
  "map_option u_status (find (\<lambda>u. u_id u = uid) (forEachUnit ids (\<lambda>u. u\<lparr>u_status := s\<rparr>) us)) =
     (if uid \<in> set ids then map_option (\<lambda>_. s) (find (\<lambda>u. u_id u = uid) us)
      else map_option u_status (find (\<lambda>u. u_id u = uid) us))"
proof -
  have "find (\<lambda>u. u_id u = uid) (forEachUnit ids (\<lambda>u. u\<lparr>u_status := s\<rparr>) us) =
         (if uid \<in> set ids then map_option (\<lambda>u. u\<lparr>u_status := s\<rparr>) (find (\<lambda>u. u_id u = uid) us)
          else find (\<lambda>u. u_id u = uid) us)"
    by (rule find_forEachUnit) simp_all
  then show ?thesis by (simp add: option.map_comp comp_def)
qed

lemma find_forEachUnit_reset:
  "map_option u_status (find (\<lambda>u. u_id u = uid)
       (forEachUnit ids (\<lambda>u. u\<lparr>u_status := s, u_buyerId := None, u_dateSold := None\<rparr>) us)) =
     (if uid \<in> set ids then map_option (\<lambda>_. s) (find (\<lambda>u. u_id u = uid) us)
      else map_option u_status (find (\<lambda>u. u_id u = uid) us))"
proof -
  have "find (\<lambda>u. u_id u = uid) (forEachUnit ids (\<lambda>u. u\<lparr>u_status := s, u_buyerId := None, u_dateSold := None\<rparr>) us) =
         (if uid \<in> set ids then map_option (\<lambda>u. u\<lparr>u_status := s, u_buyerId := None, u_dateSold := None\<rparr>) (find (\<lambda>u. u_id u = uid) us)
          else find (\<lambda>u. u_id u = uid) us)"
    by (rule find_forEachUnit) simp_all
  then show ?thesis by (simp add: option.map_comp comp_def)
qed

lemma unknown_order_noop:
  assumes "find (\<lambda>x. o_id x = orderId) (orders st) = None"
  shows "requestOrderReturn orderId st = st" "processBuyerReturn orderId accept st = st"
        "cancelOrder generateId orderId st = st" "fulfillOrder today orderId unitIds st = st"
  using assms by (simp_all add: requestOrderReturn_def processBuyerReturn_def cancelOrder_def fulfillOrder_def)

lemma order_status_after:
  assumes f: "find (\<lambda>x. o_id x = orderId) (orders st) = Some order"
  shows "map_option o_status (find (\<lambda>x. o_id x = orderId) (orders (requestOrderReturn orderId st))) = Some Return_Requested"
    and "map_option o_status (find (\<lambda>x. o_id x = orderId) (orders (processBuyerReturn orderId True st))) = Some Returned"
    and "map_option o_status (find (\<lambda>x. o_id x = orderId) (orders (processBuyerReturn orderId False st))) = Some Delivered"
    and "map_option o_status (find (\<lambda>x. o_id x = orderId) (orders (fulfillOrder today orderId unitIds st))) = Some Confirmed"
    and "orders (cancelOrder generateId orderId st) = removeFirst (\<lambda>x. o_id x = orderId) (orders st)"
  using f
  by (auto simp: requestOrderReturn_def processBuyerReturn_def fulfillOrder_def cancelOrder_def Let_def
        find_updateFirst_same split: option.splits list.splits)

lemma unit_status_after:
  assumes f: "find (\<lambda>x. o_id x = orderId) (orders st) = Some order"
      and a: "o_assignedUnitIds order = Some ids" and m: "uid \<in> set ids"
  shows "map_option u_status (find (\<lambda>u. u_id u = uid) (units (requestOrderReturn orderId st)))
           = map_option (\<lambda>_. RETURN_REQUESTED) (find (\<lambda>u. u_id u = uid) (units st))"
    and "map_option u_status (find (\<lambda>u. u_id u = uid) (units (processBuyerReturn orderId True st)))
           = map_option (\<lambda>_. RETURNED_TO_SELLER) (find (\<lambda>u. u_id u = uid) (units st))"
    and "map_option u_status (find (\<lambda>u. u_id u = uid) (units (processBuyerReturn orderId False st)))
           = map_option (\<lambda>_. SOLD_TO_BUYER) (find (\<lambda>u. u_id u = uid) (units st))"
    and "map_option u_status (find (\<lambda>u. u_id u = uid) (units (cancelOrder generateId orderId st)))
           = map_option (\<lambda>_. AT_SELLER) (find (\<lambda>u. u_id u = uid) (units st))"
proof -
  show "map_option u_status (find (\<lambda>u. u_id u = uid) (units (requestOrderReturn orderId st)))
           = map_option (\<lambda>_. RETURN_REQUESTED) (find (\<lambda>u. u_id u = uid) (units st))"
    using f a m by (simp add: requestOrderReturn_def Let_def find_forEachUnit_status)
  show "map_option u_status (find (\<lambda>u. u_id u = uid) (units (processBuyerReturn orderId True st)))
           = map_option (\<lambda>_. RETURNED_TO_SELLER) (find (\<lambda>u. u_id u = uid) (units st))"
    using f a m by (simp add: processBuyerReturn_def Let_def find_forEachUnit_status)
  show "map_option u_status (find (\<lambda>u. u_id u = uid) (units (processBuyerReturn orderId False st)))
           = map_option (\<lambda>_. SOLD_TO_BUYER) (find (\<lambda>u. u_id u = uid) (units st))"
    using f a m by (simp add: processBuyerReturn_def Let_def find_forEachUnit_status)
  from m obtain b bs where ids: "ids = b # bs" by (cases ids) auto
  have "units (cancelOrder generateId orderId st) =
          forEachUnit ids (\<lambda>u. u\<lparr>u_status := AT_SELLER, u_buyerId := None, u_dateSold := None\<rparr>) (units st)"
    using f a ids by (simp add: cancelOrder_def Let_def)
  then show "map_option u_status (find (\<lambda>u. u_id u = uid) (units (cancelOrder generateId orderId st)))
           = map_option (\<lambda>_. AT_SELLER) (find (\<lambda>u. u_id u = uid) (units st))"
    using m by (simp add: find_forEachUnit_reset)
qed

text \<open>
  Claim C5 (as amended).  The triggers \<open>requestOrderReturn\<close>, \<open>processBuyerReturn\<close>,
  \<open>cancelOrder\<close> and \<open>fulfillOrder\<close> look at no current status.  When no order has the
  given id they return without writing anything.  On an existing order they always write,
  whatever the order's and the units' status: the order takes the trigger's destination
  status (or is removed, for cancellation), and every assigned unit that exists takes the
  trigger's destination status.
\<close>

theorem lifecycle_triggers_unconditional:
  "(find (\<lambda>x. o_id x = orderId) (orders st) = None \<longrightarrow>
        requestOrderReturn orderId st = st \<and> processBuyerReturn orderId accept st = st
      \<and> cancelOrder generateId orderId st = st \<and> fulfillOrder today orderId unitIds st = st)
   \<and> (find (\<lambda>x. o_id x = orderId) (orders st) = Some order \<longrightarrow>
        map_option o_status (find (\<lambda>x. o_id x = orderId) (orders (requestOrderReturn orderId st))) = Some Return_Requested
      \<and> map_option o_status (find (\<lambda>x. o_id x = orderId) (orders (processBuyerReturn orderId True st))) = Some Returned
      \<and> map_option o_status (find (\<lambda>x. o_id x = orderId) (orders (processBuyerReturn orderId False st))) = Some Delivered
      \<and> map_option o_status (find (\<lambda>x. o_id x = orderId) (orders (fulfillOrder today orderId unitIds st))) = Some Confirmed
      \<and> orders (cancelOrder generateId orderId st) = removeFirst (\<lambda>x. o_id x = orderId) (orders st)
      \<and> (o_assignedUnitIds order = Some ids \<and> uid \<in> set ids \<longrightarrow>
            map_option u_status (find (\<lambda>u. u_id u = uid) (units (requestOrderReturn orderId st)))
              = map_option (\<lambda>_. RETURN_REQUESTED) (find (\<lambda>u. u_id u = uid) (units st))
          \<and> map_option u_status (find (\<lambda>u. u_id u = uid) (units (processBuyerReturn orderId True st)))
              = map_option (\<lambda>_. RETURNED_TO_SELLER) (find (\<lambda>u. u_id u = uid) (units st))
          \<and> map_option u_status (find (\<lambda>u. u_id u = uid) (units (processBuyerReturn orderId False st)))
              = map_option (\<lambda>_. SOLD_TO_BUYER) (find (\<lambda>u. u_id u = uid) (units st))
          \<and> map_option u_status (find (\<lambda>u. u_id u = uid) (units (cancelOrder generateId orderId st)))
              = map_option (\<lambda>_. AT_SELLER) (find (\<lambda>u. u_id u = uid) (units st))))"
proof (intro conjI impI)
  assume n: "find (\<lambda>x. o_id x = orderId) (orders st) = None"
  show "requestOrderReturn orderId st = st" by (rule unknown_order_noop(1)[OF n])
  show "processBuyerReturn orderId accept st = st" by (rule unknown_order_noop(2)[OF n])
  show "cancelOrder generateId orderId st = st" by (rule unknown_order_noop(3)[OF n])
  show "fulfillOrder today orderId unitIds st = st" by (rule unknown_order_noop(4)[OF n])
next
  assume f: "find (\<lambda>x. o_id x = orderId) (orders st) = Some order"
  show "map_option o_status (find (\<lambda>x. o_id x = orderId) (orders (requestOrderReturn orderId st))) = Some Return_Requested"
    by (rule order_status_after(1)[OF f])
  show "map_option o_status (find (\<lambda>x. o_id x = orderId) (orders (processBuyerReturn orderId True st))) = Some Returned"
    by (rule order_status_after(2)[OF f])
  show "map_option o_status (find (\<lambda>x. o_id x = orderId) (orders (processBuyerReturn orderId False st))) = Some Delivered"
    by (rule order_status_after(3)[OF f])
  show "map_option o_status (find (\<lambda>x. o_id x = orderId) (orders (fulfillOrder today orderId unitIds st))) = Some Confirmed"
    by (rule order_status_after(4)[OF f])
  show "orders (cancelOrder generateId orderId st) = removeFirst (\<lambda>x. o_id x = orderId) (orders st)"
    by (rule order_status_after(5)[OF f])
  assume "o_assignedUnitIds order = Some ids \<and> uid \<in> set ids"
  then have a: "o_assignedUnitIds order = Some ids" and m: "uid \<in> set ids" by simp_all
  show "map_option u_status (find (\<lambda>u. u_id u = uid) (units (requestOrderReturn orderId st)))
              = map_option (\<lambda>_. RETURN_REQUESTED) (find (\<lambda>u. u_id u = uid) (units st))"
    by (rule unit_status_after(1)[OF f a m])
  show "map_option u_status (find (\<lambda>u. u_id u = uid) (units (processBuyerReturn orderId True st)))
              = map_option (\<lambda>_. RETURNED_TO_SELLER) (find (\<lambda>u. u_id u = uid) (units st))"
    by (rule unit_status_after(2)[OF f a m])
  show "map_option u_status (find (\<lambda>u. u_id u = uid) (units (processBuyerReturn orderId False st)))
              = map_option (\<lambda>_. SOLD_TO_BUYER) (find (\<lambda>u. u_id u = uid) (units st))"
    by (rule unit_status_after(3)[OF f a m])
  show "map_option u_status (find (\<lambda>u. u_id u = uid) (units (cancelOrder generateId orderId st)))
              = map_option (\<lambda>_. AT_SELLER) (find (\<lambda>u. u_id u = uid) (units st))"
    by (rule unit_status_after(4)[OF f a m])
qed

text \<open>Against claim C5 as stated: a return is requested on a delivered order whose
  assigned unit is AT_SELLER, and the same order is cancelled although delivered; both
  triggers are applied.\<close>

theorem lifecycle_triggers_counterexample:
  "map o_status (orders conflictStore) = [Delivered]
   \<and> map o_assignedUnitIds (orders conflictStore) = [Some [''u1'']]
   \<and> map u_status (units conflictStore) = [AT_SELLER]
   \<and> map o_status (orders (requestOrderReturn ''o1'' conflictStore)) = [Return_Requested]
   \<and> map u_status (units (requestOrderReturn ''o1'' conflictStore)) = [RETURN_REQUESTED]
   \<and> orders (cancelOrder orderIds ''o1'' conflictStore) = []"
  by (simp add: order_eval)

theorem lifecycle_triggers_unconditional_witness:
  "find (\<lambda>x. o_id x = ''o9'') (orders conflictStore) = None
   \<and> requestOrderReturn ''o9'' conflictStore = conflictStore
   \<and> cancelOrder orderIds ''o9'' conflictStore = conflictStore
   \<and> find (\<lambda>x. o_id x = ''o1'') (orders conflictStore) = Some (mkOrder ''o1'' 1 Delivered (Some [''u1'']))
   \<and> map_option o_status (find (\<lambda>x. o_id x = ''o1'') (orders (requestOrderReturn ''o1'' conflictStore))) = Some Return_Requested
   \<and> map_option u_status (find (\<lambda>u. u_id u = ''u1'') (units (requestOrderReturn ''o1'' conflictStore))) = Some RETURN_REQUESTED
   \<and> map_option u_status (find (\<lambda>u. u_id u = ''u1'') (units (cancelOrder orderIds ''o1'' conflictStore))) = Some AT_SELLER"
proof -
  have n: "find (\<lambda>x. o_id x = ''o9'') (orders conflictStore) = None"
    by (simp add: conflictStore_def emptyStore_def mkOrder_def)
  have f: "find (\<lambda>x. o_id x = ''o1'') (orders conflictStore) = Some (mkOrder ''o1'' 1 Delivered (Some [''u1'']))"
    by (simp add: conflictStore_def emptyStore_def mkOrder_def)
  have a: "o_assignedUnitIds (mkOrder ''o1'' 1 Delivered (Some [''u1''])) = Some [''u1''] \<and> ''u1'' \<in> set [''u1'']"
    by (simp add: mkOrder_def)
  have u: "find (\<lambda>u. u_id u = ''u1'') (units conflictStore) = Some (unitAt ''u1'' ''100000'' AT_SELLER)"
    by (simp add: conflictStore_def emptyStore_def unitAt_def mkUnit_def)
  from lifecycle_triggers_unconditional[of "''o9''" conflictStore True orderIds "''d''" None]
       n have 1: "requestOrderReturn ''o9'' conflictStore = conflictStore"
                 "cancelOrder orderIds ''o9'' conflictStore = conflictStore" by blast+
  from lifecycle_triggers_unconditional[of "''o1''" conflictStore True orderIds "''d''" None
         "mkOrder ''o1'' 1 Delivered (Some [''u1''])" "[''u1'']" "''u1''"] f a u
  have 2: "map_option o_status (find (\<lambda>x. o_id x = ''o1'') (orders (requestOrderReturn ''o1'' conflictStore))) = Some Return_Requested"
          "map_option u_status (find (\<lambda>u. u_id u = ''u1'') (units (requestOrderReturn ''o1'' conflictStore))) = Some RETURN_REQUESTED"
          "map_option u_status (find (\<lambda>u. u_id u = ''u1'') (units (cancelOrder orderIds ''o1'' conflictStore))) = Some AT_SELLER"
    by simp_all
  from n f 1 2 show ?thesis by simp
qed





lemma releaseUnit_props [simp]:
  "u_id (releaseUnit u) = u_id u" "releaseUnit (releaseUnit u) = releaseUnit u"
  by (simp_all add: releaseUnit_def)

lemma sellUnit_id [simp]: "u_id (sellUnit user today u) = u_id u"
  by (simp add: sellUnit_def)







lemma sellUnit_idem [simp]: "sellUnit usr t (sellUnit usr t u) = sellUnit usr t u"
  by (simp add: sellUnit_def)














lemma debit_quantity [simp]: "debit ps cart (s\<lparr>b_quantity := n\<rparr>) = debit ps cart s"
  by (simp add: debit_def)















section \<open>Properties of QR signing\<close>

lemmas qr_eval = generateSyncSignature_def hashStep_def SYSTEM_SECRET_KEY_def getSignedQRData_def
  validateSignedQR_def natToString.simps digitChar_def Let_def

lemma split_no_sep: "sep \<notin> set s \<Longrightarrow> split sep s = [s]"
  by (induction s) auto

lemma split_append_sep: "sep \<notin> set a \<Longrightarrow> split sep (a @ sep # b) = a # split sep b"
  by (induction a) auto

lemma digitChar_inj: "d < 36 \<Longrightarrow> e < 36 \<Longrightarrow> digitChar d = digitChar e \<Longrightarrow> d = e"
proof -
  have dist: "distinct ''0123456789abcdefghijklmnopqrstuvwxyz''" by simp
  have len: "length ''0123456789abcdefghijklmnopqrstuvwxyz'' = 36" by simp
  assume "d < 36" "e < 36" "digitChar d = digitChar e"
  then show "d = e"
    using dist len by (simp add: digitChar_def nth_eq_iff_index_eq del: distinct.simps)
qed

lemma digitChar_hex: "d < 16 \<Longrightarrow> digitChar d \<in> set ''0123456789abcdef''"
proof -
  assume d: "d < 16"
  have t: "take 16 ''0123456789abcdefghijklmnopqrstuvwxyz'' = ''0123456789abcdef''" by simp
  have "digitChar d = take 16 ''0123456789abcdefghijklmnopqrstuvwxyz'' ! d"
    using d by (simp add: digitChar_def del: take_Cons_numeral)
  then have "digitChar d = ''0123456789abcdef'' ! d" unfolding t .
  moreover have "d < length ''0123456789abcdef''" using d by simp
  ultimately show ?thesis by (metis nth_mem)
qed

lemma natToString_nonempty: "natToString radix n \<noteq> []"
  by (subst natToString.simps) simp

lemma natToString_hex: "set (natToString 16 n) \<subseteq> set ''0123456789abcdef''"
proof (induction "16::nat" n rule: natToString.induct)
  case (1 n)
  show ?case
  proof (cases "n < 16")
    case True
    then show ?thesis using digitChar_hex[of n] by (subst natToString.simps) simp
  next
    case False
    have "n mod 16 < 16" by simp
    from digitChar_hex[OF this] 1 False show ?thesis
      by (subst natToString.simps) simp
  qed
qed

lemma signature_no_colon: "CHR '':'' \<notin> set (generateSyncSignature str)"
  using natToString_hex[of "unat (foldl hashStep 0xdeadbeef str XOR drop_bit 16 (foldl hashStep 0xdeadbeef str))"]
  by (auto simp: generateSyncSignature_def Let_def)

lemma natToString_inj:
  assumes r: "2 \<le> radix" "radix \<le> 36"
  shows "natToString radix n = natToString radix m \<Longrightarrow> n = m"
proof (induction n arbitrary: m rule: less_induct)
  case (less n)
  have small: "natToString radix k = [digitChar k]" if "k < radix" for k
    using that by (subst natToString.simps) simp
  have big: "natToString radix k = natToString radix (k div radix) @ [digitChar (k mod radix)]"
    if "\<not> k < radix" for k
    using that r by (subst natToString.simps) simp
  have digit: "a = b" if "a < radix" "b < radix" "digitChar a = digitChar b" for a b
    using that r by (intro digitChar_inj) simp_all
  show ?case
  proof (cases "n < radix")
    case nT: True
    show ?thesis
    proof (cases "m < radix")
      case True
      with nT less.prems show ?thesis by (simp add: small digit)
    next
      case False
      with nT less.prems show ?thesis
        using natToString_nonempty[of radix "m div radix"] by (simp add: small big)
    qed
  next
    case nF: False
    show ?thesis
    proof (cases "m < radix")
      case True
      with nF less.prems show ?thesis
        using natToString_nonempty[of radix "n div radix"] by (simp add: small big)
    next
      case False
      with nF less.prems have
        e: "natToString radix (n div radix) = natToString radix (m div radix)"
           "digitChar (n mod radix) = digitChar (m mod radix)"
        by (simp_all add: big)
      have "n div radix < n" using nF r by (intro div_less_dividend) simp_all
      from less.IH[OF this e(1)] have d: "n div radix = m div radix" .
      have "n mod radix = m mod radix" using r by (intro digit[OF _ _ e(2)]) simp_all
      with d show ?thesis by (metis div_mult_mod_eq)
    qed
  qed
qed

lemma unat_of_char: "unat (of_char c :: 32 word) = of_char c"
proof -
  have "(of_char c :: 32 word) = of_nat (of_char c)" by (simp add: of_nat_of_char)
  then have "unat (of_char c :: 32 word) = unat (of_nat (of_char c :: nat) :: 32 word)" by simp
  also have "\<dots> = of_char c mod 2 ^ 32" by (simp add: unat_of_nat)
  also have "\<dots> = of_char c"
  proof (rule mod_less)
    have "(of_char c :: nat) < 256" by (rule nat_of_char_less_256)
    also have "(256 :: nat) < 2 ^ 32" by simp
    finally show "(of_char c :: nat) < 2 ^ 32" .
  qed
  finally show ?thesis .
qed

lemma of_char_word_inj: "(of_char c :: 32 word) = of_char d \<Longrightarrow> c = d"
proof -
  assume "(of_char c :: 32 word) = of_char d"
  then have "unat (of_char c :: 32 word) = unat (of_char d :: 32 word)" by simp
  then have "(of_char c :: nat) = of_char d" by (simp only: unat_of_char)
  then show "c = d" by simp
qed

lemma multiplier_inverse: "(2654435761 :: 32 word) * 244002641 = 1"
  by simp

lemma mult_inj: "(a :: 32 word) * 2654435761 = b * 2654435761 \<Longrightarrow> a = b"
proof -
  assume "a * 2654435761 = b * 2654435761"
  then have "a * 2654435761 * 244002641 = b * 2654435761 * 244002641" by simp
  then have "a * (2654435761 * 244002641) = b * (2654435761 * 244002641)"
    by (simp only: mult.assoc)
  then show "a = b" by (simp only: multiplier_inverse mult_1_right)
qed

lemma xor_inj: "(h :: 32 word) XOR a = h XOR b \<Longrightarrow> a = b"
  by (metis bit.xor_left_self)

lemma hashStep_inj_state: "hashStep h c = hashStep h' c \<Longrightarrow> h = h'"
  unfolding hashStep_def by (drule mult_inj) (metis bit.xor_left_self xor.commute)

lemma hashStep_inj_char: "hashStep h c = hashStep h d \<Longrightarrow> c = d"
  unfolding hashStep_def by (drule mult_inj) (metis xor_inj of_char_word_inj)

lemma foldl_hashStep_inj: "foldl hashStep h s = foldl hashStep h' s \<Longrightarrow> h = h'"
  by (induction s arbitrary: h h') (auto dest: hashStep_inj_state)

lemma mix_involution: "(h XOR drop_bit 16 h) XOR drop_bit 16 (h XOR drop_bit 16 h) = (h :: 32 word)"
  by (rule bit_word_eqI) (auto simp: bit_simps)

lemma mix_inj: "(h :: 32 word) XOR drop_bit 16 h = h' XOR drop_bit 16 h' \<Longrightarrow> h = h'"
  by (metis mix_involution)

lemma generateSyncSignature_inj_char:
  "generateSyncSignature (a @ c # b) = generateSyncSignature (a @ d # b) \<Longrightarrow> c = d"
proof -
  let ?h = "\<lambda>s. foldl hashStep (0xdeadbeef :: 32 word) s"
  assume "generateSyncSignature (a @ c # b) = generateSyncSignature (a @ d # b)"
  then have "natToString 16 (unat (?h (a @ c # b) XOR drop_bit 16 (?h (a @ c # b))))
           = natToString 16 (unat (?h (a @ d # b) XOR drop_bit 16 (?h (a @ d # b))))"
    by (simp add: generateSyncSignature_def Let_def)
  then have "unat (?h (a @ c # b) XOR drop_bit 16 (?h (a @ c # b)))
           = unat (?h (a @ d # b) XOR drop_bit 16 (?h (a @ d # b)))"
    by (rule natToString_inj[rotated 2]) simp_all
  then have "?h (a @ c # b) XOR drop_bit 16 (?h (a @ c # b)) = ?h (a @ d # b) XOR drop_bit 16 (?h (a @ d # b))"
    by (simp only: word_unat_eq_iff)
  then have "?h (a @ c # b) = ?h (a @ d # b)" by (rule mix_inj)
  then have "foldl hashStep (hashStep (?h a) c) b = foldl hashStep (hashStep (?h a) d) b" by simp
  then have "hashStep (?h a) c = hashStep (?h a) d" by (rule foldl_hashStep_inj)
  then show "c = d" by (rule hashStep_inj_char)
qed

lemma split_nonempty: "split sep s \<noteq> []"
  by (induction s) (auto split: list.splits)

lemma length_split: "length (split sep s) = Suc (length (filter (\<lambda>c. c = sep) s))"
  by (induction s) (auto split: list.splits simp: split_nonempty)

lemma validate_malformed:
  assumes "take 3 s = ''LS:''" and "length (filter (\<lambda>c. c = CHR '':'') s) \<noteq> 2"
  shows "validateSignedQR s = Inl MalformedQR"
proof -
  have "length (split (CHR '':'') s) \<noteq> 3" using assms(2) by (simp add: length_split)
  then show ?thesis using assms(1)
    by (auto simp: validateSignedQR_def split: list.splits)
qed

lemma validate_parts:
  assumes "CHR '':'' \<notin> set a" and "CHR '':'' \<notin> set b"
  shows "validateSignedQR (''LS:'' @ a @ CHR '':'' # b) =
           (if b \<noteq> generateSyncSignature (a @ SYSTEM_SECRET_KEY) then Inl ForgedQR else Inr a)"
proof -
  have "split (CHR '':'') (''LS:'' @ a @ CHR '':'' # b) = ''LS'' # split (CHR '':'') (a @ CHR '':'' # b)"
    using split_append_sep[of "CHR '':''" "''LS''" "a @ CHR '':'' # b"] by simp
  also have "split (CHR '':'') (a @ CHR '':'' # b) = a # split (CHR '':'') b"
    using assms(1) by (rule split_append_sep)
  also have "split (CHR '':'') b = [b]" using assms(2) by (rule split_no_sep)
  finally have "split (CHR '':'') (''LS:'' @ a @ CHR '':'' # b) = [''LS'', a, b]" .
  then show ?thesis by (simp add: validateSignedQR_def)
qed

lemma count_update:
  assumes "i < length w"
  shows "length (filter P (w[i := c])) + (if P (w ! i) then 1 else 0)
         = length (filter P w) + (if P c then 1 else 0)"
proof -
  have w: "w = take i w @ w ! i # drop (Suc i) w" using assms by (rule id_take_nth_drop)
  have u: "w[i := c] = take i w @ c # drop (Suc i) w" using assms by (rule upd_conv_take_nth_drop)
  have "length (filter P w) = length (filter P (take i w)) + (if P (w ! i) then 1 else 0) + length (filter P (drop (Suc i) w))"
    by (subst w) simp
  moreover have "length (filter P (w[i := c])) = length (filter P (take i w)) + (if P c then 1 else 0) + length (filter P (drop (Suc i) w))"
    by (subst u) simp
  ultimately show ?thesis by simp
qed

lemma no_colon_count: "CHR '':'' \<notin> set s \<Longrightarrow> filter (\<lambda>c. c = CHR '':'') s = []"
  by (induction s) auto

text \<open>
  Claim C8 (as amended).  For a serial number without a colon, the signed payload
  verifies and yields the serial.  Altering one character of the payload is always
  rejected, with the reason of the failure class it falls in: the external-code reason
  when the alteration hits the prefix \<open>LS:\<close>, the malformed-data reason when it adds or
  removes a colon, and the forged-signature (digest mismatch) reason otherwise, that is
  for every other alteration inside the serial or the signature.
\<close>

theorem qr_round_trip_and_tamper:
  assumes nc: "CHR '':'' \<notin> set S"
  shows "validateSignedQR (getSignedQRData S) = Inr S
       \<and> (\<forall>i c. i < length (getSignedQRData S) \<and> c \<noteq> getSignedQRData S ! i \<longrightarrow>
             validateSignedQR ((getSignedQRData S)[i := c]) =
               Inl (if i < 3 then ExternalQR
                    else if c = CHR '':'' \<or> i = 3 + length S then MalformedQR
                    else ForgedQR))"
proof (intro conjI allI impI)
  define sig where "sig = generateSyncSignature (S @ SYSTEM_SECRET_KEY)"
  define body where "body = S @ CHR '':'' # sig"
  have w: "getSignedQRData S = ''LS:'' @ body"
    by (simp add: getSignedQRData_def sig_def body_def)
  have sc: "CHR '':'' \<notin> set sig" unfolding sig_def by (rule signature_no_colon)
  show "validateSignedQR (getSignedQRData S) = Inr S"
    unfolding w body_def using validate_parts[OF nc sc] by (simp add: sig_def)
  fix i c
  assume a: "i < length (getSignedQRData S) \<and> c \<noteq> getSignedQRData S ! i"
  then have il: "i < length (''LS:'' @ body)" and cd: "c \<noteq> (''LS:'' @ body) ! i"
    by (simp_all add: w)
  have cnt: "length (filter (\<lambda>c. c = CHR '':'') (''LS:'' @ body)) = 2"
    using nc sc by (simp add: body_def no_colon_count)
  show "validateSignedQR ((getSignedQRData S)[i := c]) =
               Inl (if i < 3 then ExternalQR
                    else if c = CHR '':'' \<or> i = 3 + length S then MalformedQR
                    else ForgedQR)"
  proof (cases "i < 3")
    case True
    then consider "i = 0" | "i = 1" | "i = 2" by linarith
    then show ?thesis
    proof cases
      case 1
      with cd show ?thesis by (simp add: w validateSignedQR_def)
    next
      case 2
      with cd show ?thesis by (simp add: w validateSignedQR_def)
    next
      case 3
      with cd show ?thesis by (simp add: w validateSignedQR_def)
    qed
  next
    case False
    define j where "j = i - 3"
    have i: "i = 3 + j" using False by (simp add: j_def)
    have jl: "j < length body" using il i by simp
    have upd: "(''LS:'' @ body)[i := c] = ''LS:'' @ body[j := c]"
      by (simp add: i list_update_append)
    have nth: "(''LS:'' @ body) ! i = body ! j"
      by (simp add: i nth_append)
    have pre: "take 3 ((''LS:'' @ body)[i := c]) = ''LS:''"
      unfolding upd by simp
    have count: "length (filter (\<lambda>c. c = CHR '':'') ((''LS:'' @ body)[i := c]))
                   + (if (''LS:'' @ body) ! i = CHR '':'' then 1 else 0)
                 = 2 + (if c = CHR '':'' then 1 else 0)"
      using count_update[OF il, of "\<lambda>c. c = CHR '':''" c] cnt by simp
    show ?thesis
    proof (cases "c = CHR '':'' \<or> i = 3 + length S")
      case True
      have "length (filter (\<lambda>c. c = CHR '':'') ((''LS:'' @ body)[i := c])) \<noteq> 2"
      proof (cases "c = CHR '':''")
        case True
        with cd count show ?thesis by simp
      next
        case cF: False
        with True have "j = length S" using i by simp
        then have "(''LS:'' @ body) ! i = CHR '':''" unfolding nth by (simp add: body_def)
        with cF count show ?thesis by simp
      qed
      from validate_malformed[OF pre this] True False show ?thesis by (simp add: w)
    next
      case F2: False
      then have cn: "c \<noteq> CHR '':''" and jn: "j \<noteq> length S" using i by simp_all
      show ?thesis
      proof (cases "j < length S")
        case True
        have b: "body[j := c] = S[j := c] @ CHR '':'' # sig"
          using True by (simp add: body_def list_update_append)
        have orig: "body ! j = S ! j" using True by (simp add: body_def nth_append)
        have nc': "CHR '':'' \<notin> set (S[j := c])"
          using nc cn set_update_subset_insert[of S j c] by auto
        have "sig \<noteq> generateSyncSignature (S[j := c] @ SYSTEM_SECRET_KEY)"
        proof
          assume e: "sig = generateSyncSignature (S[j := c] @ SYSTEM_SECRET_KEY)"
          have s1: "S = take j S @ S ! j # drop (Suc j) S" using True by (rule id_take_nth_drop)
          have s2: "S[j := c] = take j S @ c # drop (Suc j) S" using True by (rule upd_conv_take_nth_drop)
          have "generateSyncSignature (take j S @ S ! j # (drop (Suc j) S @ SYSTEM_SECRET_KEY))
              = generateSyncSignature (take j S @ c # (drop (Suc j) S @ SYSTEM_SECRET_KEY))"
            using e s1 s2 unfolding sig_def by (metis append.assoc append_Cons)
          then have "S ! j = c" by (rule generateSyncSignature_inj_char)
          with cd nth orig show False by simp
        qed
        with validate_parts[OF nc' sc] F2 False show ?thesis
          by (simp add: w upd b del: append.simps)
      next
        case jF: False
        define k where "k = j - length S - 1"
        have j: "j = length S + Suc k" using jF jn by (simp add: k_def)
        have kl: "k < length sig" using jl j by (simp add: body_def)
        have b: "body[j := c] = S @ CHR '':'' # sig[k := c]"
          by (simp add: body_def j list_update_append)
        have orig: "body ! j = sig ! k" by (simp add: body_def j nth_append)
        have sc': "CHR '':'' \<notin> set (sig[k := c])"
          using sc cn set_update_subset_insert[of sig k c] by auto
        have "sig[k := c] \<noteq> sig"
        proof
          assume "sig[k := c] = sig"
          then have "sig[k := c] ! k = sig ! k" by simp
          with kl have "c = sig ! k" by simp
          with cd nth orig show False by simp
        qed
        with validate_parts[OF nc sc'] F2 False show ?thesis
          by (simp add: w upd b sig_def[symmetric] del: append.simps)
      qed
    qed
  qed
qed

text \<open>Against claim C8 as stated: the payload of a serial that contains a colon does not
  verify, and altering the first character of a payload is rejected with the
  external-code reason, not with the digest-mismatch reason.\<close>

theorem qr_counterexample:
  "validateSignedQR (getSignedQRData ''a:b'') = Inl MalformedQR
   \<and> getSignedQRData ''100000'' ! 0 \<noteq> CHR ''X''
   \<and> validateSignedQR ((getSignedQRData ''100000'')[0 := CHR ''X'']) = Inl ExternalQR"
  by (simp add: qr_eval)

theorem qr_round_trip_and_tamper_witness:
  "CHR '':'' \<notin> set ''100000''
   \<and> validateSignedQR (getSignedQRData ''100000'') = Inr ''100000''
   \<and> getSignedQRData ''100000'' ! 5 \<noteq> CHR ''7''
   \<and> validateSignedQR ((getSignedQRData ''100000'')[5 := CHR ''7'']) = Inl ForgedQR
   \<and> validateSignedQR ((getSignedQRData ''100000'')[9 := CHR ''x'']) = Inl MalformedQR"
proof -
  have nc: "CHR '':'' \<notin> set ''100000''" by simp
  have i5: "5 < length (getSignedQRData ''100000'') \<and> CHR ''7'' \<noteq> getSignedQRData ''100000'' ! 5"
    by (simp add: getSignedQRData_def)
  have i9: "9 < length (getSignedQRData ''100000'') \<and> CHR ''x'' \<noteq> getSignedQRData ''100000'' ! 9"
    by (simp add: getSignedQRData_def)
  from qr_round_trip_and_tamper[OF nc] have
    r: "validateSignedQR (getSignedQRData ''100000'') = Inr ''100000''"
    and t: "\<And>i c. i < length (getSignedQRData ''100000'') \<and> c \<noteq> getSignedQRData ''100000'' ! i \<Longrightarrow>
             validateSignedQR ((getSignedQRData ''100000'')[i := c]) =
               Inl (if i < 3 then ExternalQR
                    else if c = CHR '':'' \<or> i = 3 + length ''100000'' then MalformedQR
                    else ForgedQR)"
    by blast+
  from t[OF i5] have f: "validateSignedQR ((getSignedQRData ''100000'')[5 := CHR ''7'']) = Inl ForgedQR"
    by simp
  from t[OF i9] have m: "validateSignedQR ((getSignedQRData ''100000'')[9 := CHR ''x'']) = Inl MalformedQR"
    by simp
  from i5 have n5: "getSignedQRData ''100000'' ! 5 \<noteq> CHR ''7''" by (simp add: getSignedQRData_def)
  from nc r n5 f m show ?thesis by simp
qed

end
